theory Spec2Isabelle
  imports Main "HOL-Library.AList" "HOL-Library.Word"
begin

section \<open>JavaScript values\<close>

text \<open>
  The library is dynamically typed: every function tests the shape of what it is handed
  (\<^verbatim>\<open>typeof\<close>, \<^verbatim>\<open>instanceof\<close>, truthiness) before it uses it. The values of the model are
  therefore one datatype. Numbers are the integers, strings are lists of characters with
  code points below 256, a \<^verbatim>\<open>Uint8Array\<close> is a list of bytes, a plain object is the list of
  its own properties in insertion order, and \<open>CryptoKey h\<close> is the native key object with
  engine handle \<open>h\<close>.
\<close>

type_synonym byte = "8 word"

datatype jsval =
    Undefined
  | Null
  | Bool bool
  | Num int
  | Str string
  | Uint8Array "byte list"
  | Arr "jsval list"
  | Obj "(string \<times> jsval) list"
  | CryptoKey nat

text \<open>What \<^verbatim>\<open>if(v)\<close> and \<^verbatim>\<open>!v\<close> test.\<close>

fun truthy :: "jsval \<Rightarrow> bool" where
  "truthy Undefined = False"
| "truthy Null = False"
| "truthy (Bool b) = b"
| "truthy (Num n) = (n \<noteq> 0)"
| "truthy (Str s) = (s \<noteq> [])"
| "truthy (Uint8Array bs) = True"
| "truthy (Arr xs) = True"
| "truthy (Obj kvs) = True"
| "truthy (CryptoKey h) = True"

fun typeof :: "jsval \<Rightarrow> string" where
  "typeof Undefined = ''undefined''"
| "typeof Null = ''object''"
| "typeof (Bool b) = ''boolean''"
| "typeof (Num n) = ''number''"
| "typeof (Str s) = ''string''"
| "typeof (Uint8Array bs) = ''object''"
| "typeof (Arr xs) = ''object''"
| "typeof (Obj kvs) = ''object''"
| "typeof (CryptoKey h) = ''object''"

text \<open>
  Reading a property. Of a native key only \<^verbatim>\<open>algorithm\<close> is modelled, an object whose
  truthiness is all the library looks at. The reads of the library are on values it has
  tested to be truthy, or go through \<^verbatim>\<open>?.\<close>, so a read never throws.
\<close>

fun get :: "jsval \<Rightarrow> string \<Rightarrow> jsval" where
  "get (Obj kvs) k = (case map_of kvs k of None \<Rightarrow> Undefined | Some v \<Rightarrow> v)"
| "get (CryptoKey h) k =
     (if k = ''algorithm'' then Obj [(''name'', Str ''RSA-PSS'')] else Undefined)"
| "get v k = Undefined"

text \<open>\<^verbatim>\<open>o.k = v\<close>: overwrite the property where it stands, or add it last.\<close>

fun set_prop :: "jsval \<Rightarrow> string \<Rightarrow> jsval \<Rightarrow> jsval" where
  "set_prop (Obj kvs) k v = Obj (AList.update k v kvs)"
| "set_prop w k v = w"

fun has_prop :: "jsval \<Rightarrow> string \<Rightarrow> bool" where
  "has_prop (Obj kvs) k = (map_of kvs k \<noteq> None)"
| "has_prop w k = False"

text \<open>A default parameter value \<^verbatim>\<open>{p = d}\<close> applies when the argument is undefined.\<close>

definition dflt :: "jsval \<Rightarrow> jsval \<Rightarrow> jsval" where
  "dflt v d = (if v = Undefined then d else v)"

text \<open>\<^verbatim>\<open>a || b\<close>\<close>

definition or_js :: "jsval \<Rightarrow> jsval \<Rightarrow> jsval" where
  "or_js a b = (if truthy a then a else b)"

fun instanceof_Uint8Array :: "jsval \<Rightarrow> bool" where
  "instanceof_Uint8Array (Uint8Array bs) = True"
| "instanceof_Uint8Array v = False"

fun isArray :: "jsval \<Rightarrow> bool" where
  "isArray (Arr xs) = True"
| "isArray v = False"

text \<open>\<^verbatim>\<open>a.includes(x)\<close> on an array; \<open>x\<close> is a string wherever the library calls it.\<close>

fun array_includes :: "jsval \<Rightarrow> jsval \<Rightarrow> bool" where
  "array_includes (Arr xs) x = (x \<in> set xs)"
| "array_includes v x = False"

subsection \<open>Conversion to string, as a template literal does it\<close>

text \<open>
  A number prints as its decimal digits, which is what JavaScript prints for an integer of
  magnitude below ten to the power 21; from there on JavaScript prints exponent notation,
  and \<open>ToString\<close> of such a number is not what the template literal gives. The theorems
  below read \<open>ToString\<close> of a controller, which is a string.
\<close>

definition digit_char :: "nat \<Rightarrow> char" where
  "digit_char d = char_of (48 + d)"

fun show_nat :: "nat \<Rightarrow> string" where
  "show_nat n = (if n < 10 then [digit_char n] else show_nat (n div 10) @ [digit_char (n mod 10)])"

declare show_nat.simps [simp del]

definition show_int :: "int \<Rightarrow> string" where
  "show_int i = (if i < 0 then CHR ''-'' # show_nat (nat (- i)) else show_nat (nat i))"

fun join_comma :: "string list \<Rightarrow> string" where
  "join_comma [] = []"
| "join_comma [s] = s"
| "join_comma (s # t # ss) = s @ '','' @ join_comma (t # ss)"

fun ToString :: "jsval \<Rightarrow> string" where
  "ToString Undefined = ''undefined''"
| "ToString Null = ''null''"
| "ToString (Bool b) = (if b then ''true'' else ''false'')"
| "ToString (Num n) = show_int n"
| "ToString (Str s) = s"
| "ToString (Uint8Array bs) = join_comma (map (\<lambda>b. show_nat (unat b)) bs)"
| "ToString (Arr xs) =
     join_comma (map (\<lambda>x. if x = Undefined \<or> x = Null then [] else ToString x) xs)"
| "ToString (Obj kvs) = ''[object Object]''"
| "ToString (CryptoKey h) = ''[object CryptoKey]''"

text \<open>\<^verbatim>\<open>{...v}\<close>: the own enumerable properties of \<open>v\<close>, index keys for the array-likes.\<close>

definition index_keys :: "nat \<Rightarrow> string list" where
  "index_keys n = map show_nat [0..<n]"

fun spread :: "jsval \<Rightarrow> jsval" where
  "spread (Obj kvs) = Obj kvs"
| "spread (Arr xs) = Obj (zip (index_keys (length xs)) xs)"
| "spread (Str s) = Obj (zip (index_keys (length s)) (map (\<lambda>c. Str [c]) s))"
| "spread (Uint8Array bs) = Obj (zip (index_keys (length bs)) (map (\<lambda>b. Num (uint b)) bs))"
| "spread v = Obj []"

subsection \<open>Errors\<close>

text \<open>
  The library throws \<^verbatim>\<open>TypeError\<close> and \<^verbatim>\<open>Error\<close> with a message; \<open>Thrown\<close> is whatever
  an external collaborator threw, passed on untouched.
\<close>

datatype err = TypeError string | Error string | Thrown string

fun is_TypeError :: "err + 'a \<Rightarrow> bool" where
  "is_TypeError (Inl (TypeError m)) = True"
| "is_TypeError r = False"

section \<open>External collaborators\<close>

text \<open>
  The RSA engine (\<^verbatim>\<open>webcrypto.subtle\<close>), the multibase codec (\<^verbatim>\<open>base58btc\<close>) and
  \<^verbatim>\<open>Buffer.from(s, 'base64url')\<close> are not code of this library. They are a parameter of
  every function that reaches them: a record of functions that answer with a value or
  with the name of what they threw. The key arguments are values, since the library passes
  the engine whatever it was given.
\<close>

record externals =
  subtle_generateKey :: "jsval \<Rightarrow> bool \<Rightarrow> string list \<Rightarrow> string + nat \<times> nat"
  subtle_importKey :: "string \<Rightarrow> jsval \<Rightarrow> jsval \<Rightarrow> bool \<Rightarrow> string list \<Rightarrow> string + nat"
  subtle_exportKey_jwk :: "jsval \<Rightarrow> string + (string \<times> jsval) list"
  subtle_exportKey_der :: "string \<Rightarrow> jsval \<Rightarrow> string + byte list"
  subtle_sign :: "jsval \<Rightarrow> jsval \<Rightarrow> byte list \<Rightarrow> string + byte list"
  subtle_verify :: "jsval \<Rightarrow> jsval \<Rightarrow> byte list \<Rightarrow> byte list \<Rightarrow> string + bool"
  base58btc_encode :: "byte list \<Rightarrow> string"
  base58btc_decode :: "string \<Rightarrow> string + byte list"
  Buffer_from_base64url :: "jsval \<Rightarrow> string + byte list"

text \<open>A call across the boundary: what the collaborator throws propagates.\<close>

fun external :: "string + 'a \<Rightarrow> err + 'a" where
  "external (Inl e) = Inl (Thrown e)"
| "external (Inr v) = Inr v"

text \<open>\<^verbatim>\<open>webcrypto.subtle.exportKey('jwk', key)\<close> answers with a JWK object, given by its properties.\<close>

definition exportKey_jwk :: "externals \<Rightarrow> jsval \<Rightarrow> err + jsval" where
  "exportKey_jwk X key =
     (case subtle_exportKey_jwk X key of
        Inl e \<Rightarrow> Inl (Thrown e)
      | Inr props \<Rightarrow> Inr (Obj props))"

text \<open>\<^verbatim>\<open>new TextEncoder().encode(s)\<close>: UTF-8 of code points below 256.\<close>

definition utf8_char :: "char \<Rightarrow> byte list" where
  "utf8_char c =
     (let n = (of_char c :: nat)
      in if n < 128 then [of_nat n] else [of_nat (192 + n div 64), of_nat (128 + n mod 64)])"

definition TextEncoder_encode :: "string \<Rightarrow> byte list" where
  "TextEncoder_encode s = concat (map utf8_char s)"

section \<open>constants.js\<close>

definition ALGORITHM :: string where
  "ALGORITHM = ''RSA-PSS''"

definition MULTIKEY_CONTEXT_V1_URL :: string where
  "MULTIKEY_CONTEXT_V1_URL = ''https://w3id.org/security/multikey/v1''"

definition EXTRACTABLE :: bool where
  "EXTRACTABLE = True"

definition DEFAULT_MODULUS_LENGTH :: int where
  "DEFAULT_MODULUS_LENGTH = 4096"

section \<open>crypto.js\<close>

text \<open>
  The compatibility class \<^verbatim>\<open>CryptoKey\<close> of crypto.js wraps a native key. The library
  never builds an instance, and the model has no value that is one: \<open>instanceof_CryptoKey\<close>
  is the test \<^verbatim>\<open>v instanceof CryptoKey\<close> on the values of the model. A native key passes
  the test that follows it everywhere, a truthy \<^verbatim>\<open>algorithm\<close>.
\<close>

definition instanceof_CryptoKey :: "jsval \<Rightarrow> bool" where
  "instanceof_CryptoKey v = False"

section \<open>helpers.js\<close>

text \<open>\<^verbatim>\<open>Buffer.from(jwk.n, 'base64url')\<close> is the collaborator \<open>Buffer_from_base64url\<close>.\<close>

definition getModulusLengthFromJwk :: "externals \<Rightarrow> jsval \<Rightarrow> err + jsval" where
  "getModulusLengthFromJwk X jwk =
     (if \<not> truthy jwk \<or> \<not> truthy (get jwk ''n'')
      then Inl (TypeError ''\"jwk\" must have an \"n\" property.'')
      else case external (Buffer_from_base64url X (get jwk ''n'')) of
             Inl e \<Rightarrow> Inl e
           | Inr nBytes \<Rightarrow> Inr (Num (int (length nBytes) * 8)))"

section \<open>serialize.js\<close>

text \<open>The algorithm object \<^verbatim>\<open>{name: 'RSA-PSS', hash: 'SHA-256'}\<close> of every JWK import.\<close>

definition RSA_PSS_SHA256 :: jsval where
  "RSA_PSS_SHA256 = Obj [(''name'', Str ''RSA-PSS''), (''hash'', Str ''SHA-256'')]"

definition toPublicKeyBytes :: "externals \<Rightarrow> jsval \<Rightarrow> err + jsval" where
  "toPublicKeyBytes X jwk =
     (if \<not> truthy jwk \<or> typeof jwk \<noteq> ''object''
      then Inl (TypeError ''\"jwk\" must be an object.'')
      else case external (subtle_importKey X ''jwk'' jwk RSA_PSS_SHA256 True [''verify'']) of
             Inl e \<Rightarrow> Inl e
           | Inr publicKey \<Rightarrow>
               (case external (subtle_exportKey_der X ''spki'' (CryptoKey publicKey)) of
                  Inl e \<Rightarrow> Inl e
                | Inr exported \<Rightarrow> Inr (Uint8Array exported)))"

definition toSecretKeyBytes :: "externals \<Rightarrow> jsval \<Rightarrow> err + jsval" where
  "toSecretKeyBytes X jwk =
     (if \<not> truthy jwk \<or> typeof jwk \<noteq> ''object''
      then Inl (TypeError ''\"jwk\" must be an object.'')
      else if \<not> truthy (get jwk ''d'')
      then Inl (Error ''JWK does not contain a private key.'')
      else case external (subtle_importKey X ''jwk'' jwk RSA_PSS_SHA256 True [''sign'']) of
             Inl e \<Rightarrow> Inl e
           | Inr privateKey \<Rightarrow>
               (case external (subtle_exportKey_der X ''pkcs8'' (CryptoKey privateKey)) of
                  Inl e \<Rightarrow> Inl e
                | Inr exported \<Rightarrow> Inr (Uint8Array exported)))"

definition toPublicKeyMultibase :: "externals \<Rightarrow> jsval \<Rightarrow> err + jsval" where
  "toPublicKeyMultibase X publicKeyBytes =
     (case publicKeyBytes of
        Uint8Array bs \<Rightarrow> Inr (Str (base58btc_encode X bs))
      | _ \<Rightarrow> Inl (TypeError ''\"publicKeyBytes\" must be a Uint8Array.''))"

definition toSecretKeyMultibase :: "externals \<Rightarrow> jsval \<Rightarrow> err + jsval" where
  "toSecretKeyMultibase X secretKeyBytes =
     (case secretKeyBytes of
        Uint8Array bs \<Rightarrow> Inr (Str (base58btc_encode X bs))
      | _ \<Rightarrow> Inl (TypeError ''\"secretKeyBytes\" must be a Uint8Array.''))"

text \<open>
  The two callers of \<open>toPublicKeyMultibaseFromJwk\<close> hand it an object, so its property
  reads do not throw.
\<close>

definition toPublicKeyMultibaseFromJwk :: "externals \<Rightarrow> jsval \<Rightarrow> err + jsval" where
  "toPublicKeyMultibaseFromJwk X jwk =
     (let publicJwk = Obj [(''kty'', get jwk ''kty''), (''n'', get jwk ''n''),
                           (''e'', get jwk ''e''), (''alg'', get jwk ''alg'')]
      in case toPublicKeyBytes X publicJwk of
           Inl e \<Rightarrow> Inl e
         | Inr publicKeyBytes \<Rightarrow> toPublicKeyMultibase X publicKeyBytes)"

definition toSecretKeyMultibaseFromJwk :: "externals \<Rightarrow> jsval \<Rightarrow> err + jsval" where
  "toSecretKeyMultibaseFromJwk X jwk =
     (case toSecretKeyBytes X jwk of
        Inl e \<Rightarrow> Inl e
      | Inr secretKeyBytes \<Rightarrow> toSecretKeyMultibase X secretKeyBytes)"

definition fromPublicKeyMultibase :: "externals \<Rightarrow> jsval \<Rightarrow> err + jsval" where
  "fromPublicKeyMultibase X publicKeyMultibase =
     (case publicKeyMultibase of
        Str s \<Rightarrow> (case external (base58btc_decode X s) of
                    Inl e \<Rightarrow> Inl e
                  | Inr bs \<Rightarrow> Inr (Uint8Array bs))
      | _ \<Rightarrow> Inl (TypeError ''\"publicKeyMultibase\" must be a string.''))"

definition fromSecretKeyMultibase :: "externals \<Rightarrow> jsval \<Rightarrow> err + jsval" where
  "fromSecretKeyMultibase X secretKeyMultibase =
     (case secretKeyMultibase of
        Str s \<Rightarrow> (case external (base58btc_decode X s) of
                    Inl e \<Rightarrow> Inl e
                  | Inr bs \<Rightarrow> Inr (Uint8Array bs))
      | _ \<Rightarrow> Inl (TypeError ''\"secretKeyMultibase\" must be a string.''))"

definition cryptoKeyfromRaw :: "externals \<Rightarrow> jsval \<Rightarrow> jsval \<Rightarrow> jsval \<Rightarrow> jsval \<Rightarrow> err + jsval" where
  "cryptoKeyfromRaw X modulusLength secretKey publicKey keyAgreement0 =
     (let keyAgreement = dflt keyAgreement0 (Bool False)
      in if typeof modulusLength \<noteq> ''number''
         then Inl (TypeError ''\"modulusLength\" must be a number.'')
         else if \<not> instanceof_Uint8Array publicKey
         then Inl (TypeError ''\"publicKey\" must be a Uint8Array.'')
         else if truthy secretKey \<and> \<not> instanceof_Uint8Array secretKey
         then Inl (TypeError ''\"secretKey\" must be a Uint8Array.'')
         else
           let algorithm = Obj [(''name'', Str ''RSA-PSS''), (''hash'', Str ''SHA-256''),
                                (''modulusLength'', modulusLength)]
           in if truthy secretKey
              then case external (subtle_importKey X ''pkcs8'' secretKey algorithm True
                                    (if truthy keyAgreement then [''deriveBits''] else [''sign''])) of
                     Inl e \<Rightarrow> Inl e
                   | Inr key \<Rightarrow> Inr (CryptoKey key)
              else case external (subtle_importKey X ''spki'' publicKey algorithm True
                                    (if truthy keyAgreement then [''deriveBits''] else [''verify''])) of
                     Inl e \<Rightarrow> Inl e
                   | Inr key \<Rightarrow> Inr (CryptoKey key))"

definition importKeyPair :: "externals \<Rightarrow> jsval \<Rightarrow> err + jsval" where
  "importKeyPair X keyPair =
     (if \<not> truthy keyPair \<or> typeof keyPair \<noteq> ''object''
      then Inl (TypeError ''\"keyPair\" must be an object.'')
      else if instanceof_CryptoKey (get keyPair ''publicKey'') \<or>
              (truthy (get keyPair ''publicKey'') \<and>
               truthy (get (get keyPair ''publicKey'') ''algorithm''))
      then Inr keyPair
      else if truthy (get keyPair ''publicKeyJwk'')
      then (case external (subtle_importKey X ''jwk'' (get keyPair ''publicKeyJwk'') RSA_PSS_SHA256
                            True (if truthy (get keyPair ''keyAgreement'')
                                  then [''deriveBits''] else [''verify''])) of
             Inl e \<Rightarrow> Inl e
           | Inr publicKey \<Rightarrow>
               let result = set_prop (spread keyPair) ''publicKey'' (CryptoKey publicKey)
               in if truthy (get keyPair ''secretKeyJwk'') \<or> truthy (get keyPair ''privateKeyJwk'')
                  then (let secretJwk = or_js (get keyPair ''secretKeyJwk'')
                                              (get keyPair ''privateKeyJwk'')
                        in case external (subtle_importKey X ''jwk'' secretJwk RSA_PSS_SHA256 True
                                            (if truthy (get keyPair ''keyAgreement'')
                                             then [''deriveBits''] else [''sign''])) of
                             Inl e \<Rightarrow> Inl e
                           | Inr secretKey \<Rightarrow>
                               Inr (set_prop result ''secretKey'' (CryptoKey secretKey)))
                  else Inr result)
      else if truthy (get keyPair ''publicKeyMultibase'')
      then (case fromPublicKeyMultibase X (get keyPair ''publicKeyMultibase'') of
             Inl e \<Rightarrow> Inl e
           | Inr publicKeyBytes \<Rightarrow>
               (let modulusLength = or_js (get keyPair ''modulusLength'') (Num 4096)
                in (case cryptoKeyfromRaw X modulusLength Undefined publicKeyBytes
                           (get keyPair ''keyAgreement'') of
                      Inl e \<Rightarrow> Inl e
                    | Inr publicKey \<Rightarrow>
                        (let result = set_prop (spread keyPair) ''publicKey'' publicKey
                         in if truthy (get keyPair ''secretKeyMultibase'')
                            then (case fromSecretKeyMultibase X
                                         (get keyPair ''secretKeyMultibase'') of
                                    Inl e \<Rightarrow> Inl e
                                  | Inr secretKeyBytes \<Rightarrow>
                                      (case cryptoKeyfromRaw X modulusLength secretKeyBytes
                                              publicKeyBytes (get keyPair ''keyAgreement'') of
                                         Inl e \<Rightarrow> Inl e
                                       | Inr secretKey \<Rightarrow>
                                           Inr (set_prop result ''secretKey'' secretKey)))
                            else Inr result))))
      else Inl (Error ''Key pair must have publicKeyJwk or publicKeyMultibase.''))"

text \<open>
  \<open>exportKeyPair\<close> fills \<^verbatim>\<open>result\<close> in four steps; each is a function from the object so
  far to the next one.
\<close>

definition export_header :: "jsval \<Rightarrow> jsval \<Rightarrow> jsval" where
  "export_header keyPair includeContext =
     (let result = Obj [(''type'', Str ''Multikey'')];
          result = (if truthy includeContext
                    then set_prop result ''@context'' (Str ''https://w3id.org/security/multikey/v1'')
                    else result);
          result = (if truthy (get keyPair ''id'')
                    then set_prop result ''id'' (get keyPair ''id'') else result);
          result = (if truthy (get keyPair ''controller'')
                    then set_prop result ''controller'' (get keyPair ''controller'') else result)
      in result)"

definition export_public :: "externals \<Rightarrow> jsval \<Rightarrow> jsval \<Rightarrow> jsval \<Rightarrow> err + jsval" where
  "export_public X keyPair publicKey result =
     (if truthy publicKey \<and> truthy (get keyPair ''publicKey'')
      then case exportKey_jwk X (get keyPair ''publicKey'') of
             Inl e \<Rightarrow> Inl e
           | Inr publicKeyJwk \<Rightarrow>
               (case toPublicKeyBytes X publicKeyJwk of
                  Inl e \<Rightarrow> Inl e
                | Inr publicKeyBytes \<Rightarrow>
                    (case toPublicKeyMultibase X publicKeyBytes of
                       Inl e \<Rightarrow> Inl e
                     | Inr multibase \<Rightarrow>
                         Inr (set_prop (set_prop result ''publicKeyMultibase'' multibase)
                                ''publicKeyJwk'' publicKeyJwk)))
      else Inr result)"

definition export_secret :: "externals \<Rightarrow> jsval \<Rightarrow> jsval \<Rightarrow> jsval \<Rightarrow> err + jsval" where
  "export_secret X keyPair secretKey result =
     (if truthy secretKey \<and> truthy (get keyPair ''secretKey'')
      then case exportKey_jwk X (get keyPair ''secretKey'') of
             Inl e \<Rightarrow> Inl e
           | Inr secretKeyJwk \<Rightarrow>
               (case toSecretKeyBytes X secretKeyJwk of
                  Inl e \<Rightarrow> Inl e
                | Inr secretKeyBytes \<Rightarrow>
                    (case toSecretKeyMultibase X secretKeyBytes of
                       Inl e \<Rightarrow> Inl e
                     | Inr multibase \<Rightarrow>
                         Inr (set_prop (set_prop result ''secretKeyMultibase'' multibase)
                                ''secretKeyJwk'' secretKeyJwk)))
      else Inr result)"

definition exportKeyPair :: "externals \<Rightarrow> jsval \<Rightarrow> jsval \<Rightarrow> jsval \<Rightarrow> jsval \<Rightarrow> err + jsval" where
  "exportKeyPair X keyPair publicKey0 secretKey0 includeContext0 =
     (let publicKey = dflt publicKey0 (Bool True);
          secretKey = dflt secretKey0 (Bool False);
          includeContext = dflt includeContext0 (Bool True)
      in if \<not> truthy keyPair \<or> typeof keyPair \<noteq> ''object''
         then Inl (TypeError ''\"keyPair\" must be an object.'')
         else case export_public X keyPair publicKey (export_header keyPair includeContext) of
                Inl e \<Rightarrow> Inl e
              | Inr result \<Rightarrow> export_secret X keyPair secretKey result)"

section \<open>translators.js\<close>

definition toMultikey :: "externals \<Rightarrow> jsval \<Rightarrow> err + jsval" where
  "toMultikey X keyPair =
     (if \<not> truthy keyPair \<or> typeof keyPair \<noteq> ''object''
      then Inl (TypeError ''\"keyPair\" must be an object.'')
      else
        let multikey = Obj [(''@context'', Str MULTIKEY_CONTEXT_V1_URL), (''type'', Str ''Multikey'')];
            multikey = (if truthy (get keyPair ''id'')
                        then set_prop multikey ''id'' (get keyPair ''id'') else multikey);
            multikey = (if truthy (get keyPair ''controller'')
                        then set_prop multikey ''controller'' (get keyPair ''controller'')
                        else multikey)
        in case (if truthy (get keyPair ''publicKeyJwk'')
                 then case toPublicKeyMultibaseFromJwk X (get keyPair ''publicKeyJwk'') of
                        Inl e \<Rightarrow> Inl e
                      | Inr multibase \<Rightarrow>
                          Inr (set_prop (set_prop multikey ''publicKeyMultibase'' multibase)
                                 ''publicKeyJwk'' (get keyPair ''publicKeyJwk''))
                 else Inr multikey) of
             Inl e \<Rightarrow> Inl e
           | Inr multikey \<Rightarrow>
               if truthy (get keyPair ''secretKeyJwk'') \<or> truthy (get keyPair ''privateKeyJwk'')
               then let secretJwk = or_js (get keyPair ''secretKeyJwk'')
                                          (get keyPair ''privateKeyJwk'')
                    in case toSecretKeyMultibaseFromJwk X secretJwk of
                         Inl e \<Rightarrow> Inl e
                       | Inr multibase \<Rightarrow>
                           Inr (set_prop (set_prop multikey ''secretKeyMultibase'' multibase)
                                  ''secretKeyJwk'' secretJwk)
               else Inr multikey)"

section \<open>factory.js\<close>

text \<open>
  A capability is the object \<open>createSigner\<close> or \<open>createVerifier\<close> returns: the fixed
  algorithm label, the key id, and the key its \<^verbatim>\<open>sign\<close> or \<^verbatim>\<open>verify\<close> closes over. The
  two operations hand back, next to their outcome, the engine calls they made, in order.
  Both constructors also read \<^verbatim>\<open>algorithm?.modulusLength\<close> of the key into a constant
  that nothing uses; the key is truthy there, so the read has no effect and is left out.
\<close>

record capability =
  cap_algorithm :: string
  cap_id :: jsval
  cap_key :: jsval

datatype engine_call =
    Call_sign jsval jsval "byte list"
  | Call_verify jsval jsval "byte list" "byte list"

text \<open>The parameters \<^verbatim>\<open>{name: 'RSA-PSS', saltLength: 32}\<close> of both engine calls.\<close>

definition PSS_PARAMS :: jsval where
  "PSS_PARAMS = Obj [(''name'', Str ''RSA-PSS''), (''saltLength'', Num 32)]"

definition createSigner :: "jsval \<Rightarrow> jsval \<Rightarrow> err + capability" where
  "createSigner id0 secretKey =
     (if \<not> truthy id0 \<or> typeof id0 \<noteq> ''string''
      then Inl (TypeError ''\"id\" must be a non-empty string.'')
      else if \<not> truthy secretKey
      then Inl (TypeError ''\"secretKey\" is required.'')
      else Inr \<lparr>cap_algorithm = ''PS256'', cap_id = id0, cap_key = secretKey\<rparr>)"

definition sign :: "externals \<Rightarrow> capability \<Rightarrow> jsval \<Rightarrow> engine_call list \<times> (err + jsval)" where
  "sign X signer data =
     (if \<not> truthy data then ([], Inl (TypeError ''\"data\" is required.''))
      else case (case data of
                   Str s \<Rightarrow> Inr (TextEncoder_encode s)
                 | Uint8Array bs \<Rightarrow> Inr bs
                 | _ \<Rightarrow> Inl (TypeError ''\"data\" must be a string or Uint8Array.'')) of
             Inl e \<Rightarrow> ([], Inl e)
           | Inr dataToSign \<Rightarrow>
               ([Call_sign PSS_PARAMS (cap_key signer) dataToSign],
                case external (subtle_sign X PSS_PARAMS (cap_key signer) dataToSign) of
                  Inl e \<Rightarrow> Inl e
                | Inr signature \<Rightarrow> Inr (Uint8Array signature)))"

definition createVerifier :: "jsval \<Rightarrow> jsval \<Rightarrow> err + capability" where
  "createVerifier id0 publicKey =
     (if \<not> truthy id0 \<or> typeof id0 \<noteq> ''string''
      then Inl (TypeError ''\"id\" must be a non-empty string.'')
      else if \<not> truthy publicKey
      then Inl (TypeError ''\"publicKey\" is required.'')
      else Inr \<lparr>cap_algorithm = ''PS256'', cap_id = id0, cap_key = publicKey\<rparr>)"

definition verify ::
  "externals \<Rightarrow> capability \<Rightarrow> jsval \<Rightarrow> jsval \<Rightarrow> engine_call list \<times> (err + jsval)" where
  "verify X verifier data signature =
     (if \<not> truthy data then ([], Inl (TypeError ''\"data\" is required.''))
      else if \<not> truthy signature then ([], Inl (TypeError ''\"signature\" is required.''))
      else case (case data of
                   Str s \<Rightarrow> Inr (TextEncoder_encode s)
                 | Uint8Array bs \<Rightarrow> Inr bs
                 | _ \<Rightarrow> Inl (TypeError ''\"data\" must be a string or Uint8Array.'')) of
             Inl e \<Rightarrow> ([], Inl e)
           | Inr dataToVerify \<Rightarrow>
               (case signature of
                  Uint8Array sig \<Rightarrow>
                    ([Call_verify PSS_PARAMS (cap_key verifier) sig dataToVerify],
                     case subtle_verify X PSS_PARAMS (cap_key verifier) sig dataToVerify of
                       Inl e \<Rightarrow> Inr (Bool False)
                     | Inr isValid \<Rightarrow> Inr (Bool isValid))
                | _ \<Rightarrow> ([], Inl (TypeError ''\"signature\" must be a Uint8Array.''))))"

section \<open>index.js\<close>

definition assertMultikey :: "jsval \<Rightarrow> err + unit" where
  "assertMultikey key =
     (if \<not> (truthy key \<and> typeof key = ''object'')
      then Inl (TypeError ''\"key\" must be an object.'')
      else if get key ''type'' \<noteq> Str ''Multikey''
      then Inl (TypeError ''\"key\" must be a Multikey with type \"Multikey\".'')
      else if \<not> (get key ''@context'' = Str MULTIKEY_CONTEXT_V1_URL \<or>
                   (isArray (get key ''@context'') \<and>
                    array_includes (get key ''@context'') (Str MULTIKEY_CONTEXT_V1_URL)))
      then Inl (TypeError (''\"key\" must be a Multikey with context '' @
                           ''\"'' @ MULTIKEY_CONTEXT_V1_URL @ ''\".''))
      else Inr ())"

definition toJwk :: "externals \<Rightarrow> jsval \<Rightarrow> jsval \<Rightarrow> err + jsval" where
  "toJwk X keyPair0 secretKey0 =
     (let secretKey = dflt secretKey0 (Bool False)
      in case (if \<not> instanceof_CryptoKey (get keyPair0 ''publicKey'') \<and>
                  \<not> truthy (get (get keyPair0 ''publicKey'') ''algorithm'')
               then importKeyPair X keyPair0 else Inr keyPair0) of
           Inl e \<Rightarrow> Inl e
         | Inr keyPair \<Rightarrow>
             (let useSecretKey = truthy secretKey \<and> truthy (get keyPair ''secretKey'');
                  cryptoKey = (if useSecretKey then get keyPair ''secretKey''
                               else get keyPair ''publicKey'')
              in case exportKey_jwk X cryptoKey of
                   Inl e \<Rightarrow> Inl e
                 | Inr jwk \<Rightarrow>
                     Inr (if \<not> truthy (get jwk ''alg'')
                          then set_prop jwk ''alg'' (Str ''PS256'') else jwk)))"

text \<open>
  The interface object \<open>createKeyPairInterface\<close> returns carries three closures,
  \<^verbatim>\<open>export\<close>, \<^verbatim>\<open>signer\<close> and \<^verbatim>\<open>verifier\<close>. All three read the variable \<^verbatim>\<open>keyPair\<close>,
  which by then holds the interface object itself, so they are functions of that object:
  \<open>exportFn\<close>, \<open>signer\<close> and \<open>verifier\<close>. They are not listed among its properties.
\<close>

definition exportFn ::
  "externals \<Rightarrow> jsval \<Rightarrow> jsval \<Rightarrow> jsval \<Rightarrow> jsval \<Rightarrow> jsval \<Rightarrow> err + jsval" where
  "exportFn X keyPair publicKey0 secretKey0 includeContext0 raw0 =
     (let publicKey = dflt publicKey0 (Bool True);
          secretKey = dflt secretKey0 (Bool False);
          includeContext = dflt includeContext0 (Bool True);
          raw = dflt raw0 (Bool False)
      in if truthy raw
         then (case toJwk X keyPair secretKey of
                 Inl e \<Rightarrow> Inl e
               | Inr jwk \<Rightarrow>
                   (case (if truthy publicKey
                          then (let publicJwk = Obj [(''kty'', get jwk ''kty''), (''n'', get jwk ''n''),
                                                     (''e'', get jwk ''e''), (''alg'', get jwk ''alg'')]
                                in case toPublicKeyBytes X publicJwk of
                                     Inl e \<Rightarrow> Inl e
                                   | Inr bytes \<Rightarrow> Inr (set_prop (Obj []) ''publicKey'' bytes))
                          else Inr (Obj [])) of
                      Inl e \<Rightarrow> Inl e
                    | Inr result \<Rightarrow>
                        if truthy secretKey
                        then (case toSecretKeyBytes X jwk of
                                Inl e \<Rightarrow> Inl e
                              | Inr bytes \<Rightarrow> Inr (set_prop result ''secretKey'' bytes))
                        else Inr result))
         else exportKeyPair X keyPair publicKey secretKey includeContext)"

definition signer :: "jsval \<Rightarrow> err + capability" where
  "signer keyPair =
     (if \<not> truthy (get keyPair ''secretKey'')
      then Inl (Error ''Secret key is required for signing.'')
      else createSigner (get keyPair ''id'') (get keyPair ''secretKey''))"

definition verifier :: "jsval \<Rightarrow> err + capability" where
  "verifier keyPair = createVerifier (get keyPair ''id'') (get keyPair ''publicKey'')"

definition createKeyPairInterface :: "externals \<Rightarrow> jsval \<Rightarrow> jsval \<Rightarrow> err + jsval" where
  "createKeyPairInterface X keyPair0 modulusLength0 =
     (case (if \<not> instanceof_CryptoKey (get keyPair0 ''publicKey'') \<and>
               \<not> truthy (get (get keyPair0 ''publicKey'') ''algorithm'')
            then importKeyPair X keyPair0 else Inr keyPair0) of
        Inl e \<Rightarrow> Inl e
      | Inr keyPair \<Rightarrow>
          (case (if \<not> truthy modulusLength0
                 then (if truthy (get keyPair ''modulusLength'')
                       then Inr (get keyPair ''modulusLength'')
                       else if truthy (get keyPair ''publicKeyJwk'')
                       then getModulusLengthFromJwk X (get keyPair ''publicKeyJwk'')
                       else Inr (Num DEFAULT_MODULUS_LENGTH))
                 else Inr modulusLength0) of
             Inl e \<Rightarrow> Inl e
           | Inr modulusLength \<Rightarrow>
               (case exportFn X keyPair (Bool True) (Bool True) (Bool True) Undefined of
                  Inl e \<Rightarrow> Inl e
                | Inr exported \<Rightarrow>
                    Inr (set_prop
                          (set_prop
                            (set_prop (spread keyPair)
                               ''publicKeyMultibase'' (get exported ''publicKeyMultibase''))
                            ''secretKeyMultibase'' (get exported ''secretKeyMultibase''))
                          ''modulusLength'' modulusLength))))"

text \<open>
  The literal Multikey path of \<open>from\<close>, from its line \<^verbatim>\<open>if(!multikey.type)\<close> to its end,
  reached when the type test is passed or falls through.
\<close>

definition from_literal :: "externals \<Rightarrow> jsval \<Rightarrow> err + jsval" where
  "from_literal X multikey0 =
     (let multikey = (if \<not> truthy (get multikey0 ''type'')
                      then set_prop multikey0 ''type'' (Str ''Multikey'') else multikey0);
          multikey = (if \<not> truthy (get multikey ''@context'')
                      then set_prop multikey ''@context'' (Str MULTIKEY_CONTEXT_V1_URL)
                      else multikey);
          multikey = (if truthy (get multikey ''controller'') \<and> \<not> truthy (get multikey ''id'')
                      then set_prop multikey ''id''
                             (Str (ToString (get multikey ''controller'') @ ''#'' @
                                   ToString (get multikey ''publicKeyMultibase'')))
                      else multikey)
      in case assertMultikey multikey of
           Inl e \<Rightarrow> Inl e
         | Inr u \<Rightarrow> createKeyPairInterface X multikey Undefined)"

text \<open>The Multikey document \<open>fromJwk\<close> builds before it hands it to \<open>from\<close>.\<close>

definition fromJwk_multikey ::
  "externals \<Rightarrow> jsval \<Rightarrow> jsval \<Rightarrow> jsval \<Rightarrow> jsval \<Rightarrow> err + jsval" where
  "fromJwk_multikey X jwk secretKey0 id0 controller =
     (let secretKey = dflt secretKey0 (Bool False)
      in if \<not> truthy jwk \<or> typeof jwk \<noteq> ''object''
         then Inl (TypeError ''\"jwk\" is required.'')
         else if get jwk ''kty'' \<noteq> Str ''RSA''
         then Inl (TypeError ''JWK must have kty \"RSA\".'')
         else case getModulusLengthFromJwk X jwk of
                Inl e \<Rightarrow> Inl e
              | Inr modulusLength \<Rightarrow>
                  (let publicJwk = Obj [(''kty'', get jwk ''kty''), (''n'', get jwk ''n''),
                                        (''e'', get jwk ''e''), (''alg'', get jwk ''alg'')]
                   in case toPublicKeyMultibaseFromJwk X publicJwk of
                        Inl e \<Rightarrow> Inl e
                      | Inr publicKeyMultibase \<Rightarrow>
                          (let multikey = Obj
                                 [(''@context'', Str MULTIKEY_CONTEXT_V1_URL),
                                  (''type'', Str ''Multikey''),
                                  (''publicKeyMultibase'', publicKeyMultibase),
                                  (''publicKeyJwk'', Obj
                                     [(''kty'', get jwk ''kty''), (''n'', get jwk ''n''),
                                      (''e'', get jwk ''e''),
                                      (''alg'', or_js (get jwk ''alg'') (Str ''PS256''))]),
                                  (''modulusLength'', modulusLength)];
                               multikey = (if typeof id0 = ''string''
                                           then set_prop multikey ''id'' id0 else multikey);
                               multikey = (if typeof controller = ''string''
                                           then set_prop multikey ''controller'' controller
                                           else multikey)
                           in if truthy secretKey \<and> truthy (get jwk ''d'')
                              then (case toSecretKeyMultibaseFromJwk X jwk of
                                      Inl e \<Rightarrow> Inl e
                                    | Inr secretKeyMultibase \<Rightarrow>
                                        Inr (set_prop
                                              (set_prop multikey ''secretKeyMultibase''
                                                 secretKeyMultibase)
                                              ''secretKeyJwk''
                                              (Obj [(''kty'', get jwk ''kty''), (''n'', get jwk ''n''),
                                                    (''e'', get jwk ''e''), (''d'', get jwk ''d''),
                                                    (''p'', get jwk ''p''), (''q'', get jwk ''q''),
                                                    (''dp'', get jwk ''dp''), (''dq'', get jwk ''dq''),
                                                    (''qi'', get jwk ''qi''),
                                                    (''alg'', or_js (get jwk ''alg'')
                                                                (Str ''PS256''))])))
                              else Inr multikey)))"

text \<open>
  \<open>from\<close> and \<open>fromJwk\<close> call each other: \<open>from\<close> hands a JWK-carrying document that is not
  a Multikey to \<open>fromJwk\<close>, and \<open>fromJwk\<close> hands the Multikey it built back to \<open>from\<close>.
\<close>

function from_key :: "externals \<Rightarrow> jsval \<Rightarrow> err + jsval"
  and fromJwk :: "externals \<Rightarrow> jsval \<Rightarrow> jsval \<Rightarrow> jsval \<Rightarrow> jsval \<Rightarrow> err + jsval" where
  "from_key X key =
     (let multikey = spread key
      in if get multikey ''type'' \<noteq> Str ''Multikey''
         then (if truthy (get multikey ''publicKeyJwk'')
               then (let recognized = (get multikey ''type'' = Str ''JsonWebKey'' \<or>
                                       get multikey ''type'' = Str ''JsonWebKey2020'');
                         id0 = (if recognized then get multikey ''id'' else Undefined);
                         controller = (if recognized then get multikey ''controller''
                                       else Undefined)
                     in fromJwk X (get multikey ''publicKeyJwk'')
                          (Bool (truthy (get multikey ''secretKeyJwk'') \<or>
                                 truthy (get multikey ''privateKeyJwk'')))
                          id0 controller)
               else if truthy (get multikey ''type'')
               then (case toMultikey X multikey of
                       Inl e \<Rightarrow> Inl e
                     | Inr converted \<Rightarrow> createKeyPairInterface X converted Undefined)
               else from_literal X multikey)
         else from_literal X multikey)"
| "fromJwk X jwk secretKey id0 controller =
     (case fromJwk_multikey X jwk secretKey id0 controller of
        Inl e \<Rightarrow> Inl e
      | Inr multikey \<Rightarrow> from_key X multikey)"
  by pat_completeness auto

termination
proof (relation "measure (\<lambda>v. case v of
          Inl (X, key) \<Rightarrow> (if get (spread key) ''type'' \<noteq> Str ''Multikey'' then 2 else 0)
        | Inr (X, jwk, r) \<Rightarrow> 1)")
  fix X jwk secretKey id0 controller multikey
  assume built: "fromJwk_multikey X jwk secretKey id0 controller = Inr multikey"
  then have "get (spread multikey) ''type'' = Str ''Multikey''"
    by (auto simp: fromJwk_multikey_def Let_def update_conv' split: if_splits sum.splits)
  then show "(Inl (X, multikey), Inr (X, jwk, secretKey, id0, controller))
      \<in> measure (\<lambda>v. case v of
          Inl (X, key) \<Rightarrow> (if get (spread key) ''type'' \<noteq> Str ''Multikey'' then 2 else 0)
        | Inr (X, jwk, r) \<Rightarrow> 1)"
    by simp
qed simp_all

declare from_key.simps [simp del] fromJwk.simps [simp del]

definition fromRaw :: "externals \<Rightarrow> jsval \<Rightarrow> jsval \<Rightarrow> jsval \<Rightarrow> err + jsval" where
  "fromRaw X modulusLength secretKey publicKey =
     (if typeof modulusLength \<noteq> ''number''
      then Inl (TypeError ''\"modulusLength\" must be a number.'')
      else if truthy secretKey \<and> \<not> instanceof_Uint8Array secretKey
      then Inl (TypeError ''\"secretKey\" must be a Uint8Array.'')
      else if \<not> instanceof_Uint8Array publicKey
      then Inl (TypeError ''\"publicKey\" must be a Uint8Array.'')
      else case cryptoKeyfromRaw X modulusLength secretKey publicKey Undefined of
             Inl e \<Rightarrow> Inl e
           | Inr cryptoKey \<Rightarrow>
               (case exportKey_jwk X cryptoKey of
                  Inl e \<Rightarrow> Inl e
                | Inr jwk \<Rightarrow> fromJwk X jwk (Bool (truthy secretKey)) Undefined Undefined))"

text \<open>
  \<open>generate\<close>: the engine's pair \<^verbatim>\<open>{publicKey, privateKey}\<close> becomes
  \<^verbatim>\<open>{publicKey, secretKey}\<close>; the last three assignments write onto the interface object.
\<close>

definition generate :: "externals \<Rightarrow> jsval \<Rightarrow> jsval \<Rightarrow> jsval \<Rightarrow> err + jsval" where
  "generate X id0 controller modulusLength0 =
     (let modulusLength = dflt modulusLength0 (Num DEFAULT_MODULUS_LENGTH)
      in if modulusLength \<noteq> Num 2048 \<and> modulusLength \<noteq> Num 3072 \<and> modulusLength \<noteq> Num 4096
         then Inl (TypeError ''\"modulusLength\" must be one of: 2048, 3072, or 4096.'')
         else
           let algorithm = Obj [(''name'', Str ALGORITHM), (''hash'', Str ''SHA-256''),
                                (''modulusLength'', modulusLength),
                                (''publicExponent'', Uint8Array [1, 0, 1])];
               usage = [''sign'', ''verify'']
           in case external (subtle_generateKey X algorithm EXTRACTABLE usage) of
                Inl e \<Rightarrow> Inl e
              | Inr (publicKey, privateKey) \<Rightarrow>
                  (let keyPair = Obj [(''publicKey'', CryptoKey publicKey),
                                      (''secretKey'', CryptoKey privateKey)]
                   in case createKeyPairInterface X keyPair modulusLength of
                        Inl e \<Rightarrow> Inl e
                      | Inr keyPairInterface \<Rightarrow>
                          (case exportFn X keyPairInterface (Bool True) Undefined Undefined
                                  Undefined of
                             Inl e \<Rightarrow> Inl e
                           | Inr exportedKeyPair \<Rightarrow>
                               (let publicKeyMultibase = get exportedKeyPair ''publicKeyMultibase'';
                                    id1 = (if \<not> truthy id0
                                           then (if truthy controller
                                                 then Str (ToString controller @ ''#'' @
                                                           ToString publicKeyMultibase)
                                                 else Str (''#'' @ ToString publicKeyMultibase))
                                           else id0)
                                in Inr (set_prop
                                         (set_prop
                                           (set_prop keyPairInterface ''id'' id1)
                                           ''controller'' controller)
                                         ''modulusLength'' modulusLength)))))"

section \<open>A sample of the external collaborators\<close>

text \<open>
  One concrete, executable instance of the collaborators, to run the library on: an engine
  that knows a single key pair (handle 1 the public key, handle 2 the private key), a
  codec that marks the bytes with a leading \<^verbatim>\<open>z\<close>, and a base64url decoder over the
  alphabet of RFC 4648. The theorems below hold for every instance; the examples use this
  one.
\<close>

definition sample_public_jwk :: "(string \<times> jsval) list" where
  "sample_public_jwk =
     [(''key_ops'', Arr [Str ''verify'']), (''ext'', Bool True), (''kty'', Str ''RSA''),
      (''n'', Str ''u1SU1LfVLPHCozMxH2Mo''), (''e'', Str ''AQAB''), (''alg'', Str ''PS256'')]"

definition sample_private_jwk :: "(string \<times> jsval) list" where
  "sample_private_jwk =
     [(''key_ops'', Arr [Str ''sign'']), (''ext'', Bool True), (''kty'', Str ''RSA''),
      (''n'', Str ''u1SU1LfVLPHCozMxH2Mo''), (''e'', Str ''AQAB''),
      (''d'', Str ''KIBGrq''), (''p'', Str ''7qZv''), (''q'', Str ''yQ4d''),
      (''dp'', Str ''Jzo3''), (''dq'', Str ''r6Zn''), (''qi'', Str ''3sBE''),
      (''alg'', Str ''PS256'')]"

definition sample_spki :: "byte list" where
  "sample_spki = [54, 77, 107, 112]"

definition sample_pkcs8 :: "byte list" where
  "sample_pkcs8 = [51, 117, 52, 83]"

definition sample_importKey ::
  "string \<Rightarrow> jsval \<Rightarrow> jsval \<Rightarrow> bool \<Rightarrow> string list \<Rightarrow> string + nat" where
  "sample_importKey format keyData algorithm extractable usages =
     (if format = ''jwk'' \<and> get keyData ''kty'' = Str ''RSA''
      then (if truthy (get keyData ''d'')
            then (if usages = [''sign''] then Inr 2 else Inl ''SyntaxError'')
            else (if usages = [''verify''] then Inr 1 else Inl ''SyntaxError''))
      else if format = ''spki'' \<and> keyData = Uint8Array sample_spki then Inr 1
      else if format = ''pkcs8'' \<and> keyData = Uint8Array sample_pkcs8 then Inr 2
      else Inl ''DataError'')"

definition sample_exportKey_jwk :: "jsval \<Rightarrow> string + (string \<times> jsval) list" where
  "sample_exportKey_jwk key =
     (if key = CryptoKey 1 then Inr sample_public_jwk
      else if key = CryptoKey 2 then Inr sample_private_jwk
      else Inl ''TypeError'')"

definition sample_exportKey_der :: "string \<Rightarrow> jsval \<Rightarrow> string + byte list" where
  "sample_exportKey_der format key =
     (if format = ''spki'' \<and> key = CryptoKey 1 then Inr sample_spki
      else if format = ''pkcs8'' \<and> key = CryptoKey 2 then Inr sample_pkcs8
      else Inl ''InvalidAccessError'')"

definition sample_sign :: "jsval \<Rightarrow> jsval \<Rightarrow> byte list \<Rightarrow> string + byte list" where
  "sample_sign params key data =
     (if key = CryptoKey 2 then Inr (rev data) else Inl ''InvalidAccessError'')"

definition sample_verify :: "jsval \<Rightarrow> jsval \<Rightarrow> byte list \<Rightarrow> byte list \<Rightarrow> string + bool" where
  "sample_verify params key signature data =
     (if key = CryptoKey 1 then Inr (signature = rev data) else Inl ''InvalidAccessError'')"

definition sample_encode :: "byte list \<Rightarrow> string" where
  "sample_encode bs = CHR ''z'' # map (\<lambda>b. char_of (unat b)) bs"

definition sample_decode :: "string \<Rightarrow> string + byte list" where
  "sample_decode s =
     (case s of
        [] \<Rightarrow> Inl ''SyntaxError''
      | c # cs \<Rightarrow> if c = CHR ''z'' then Inr (map (\<lambda>c. of_nat (of_char c)) cs)
                  else Inl ''SyntaxError'')"

definition base64url_value :: "char \<Rightarrow> nat option" where
  "base64url_value c =
     (let n = (of_char c :: nat)
      in if 65 \<le> n \<and> n \<le> 90 then Some (n - 65)
         else if 97 \<le> n \<and> n \<le> 122 then Some (n - 71)
         else if 48 \<le> n \<and> n \<le> 57 then Some (n + 4)
         else if c = CHR ''-'' then Some 62
         else if c = CHR ''_'' then Some 63
         else None)"

fun base64url_pack :: "nat list \<Rightarrow> byte list" where
  "base64url_pack (a # b # c # d # r) =
     [of_nat (a * 4 + b div 16), of_nat ((b mod 16) * 16 + c div 4), of_nat ((c mod 4) * 64 + d)]
     @ base64url_pack r"
| "base64url_pack [a, b, c] = [of_nat (a * 4 + b div 16), of_nat ((b mod 16) * 16 + c div 4)]"
| "base64url_pack [a, b] = [of_nat (a * 4 + b div 16)]"
| "base64url_pack r = []"

definition base64url_decode :: "string \<Rightarrow> byte list" where
  "base64url_decode s = base64url_pack (List.map_filter base64url_value s)"

definition sample_Buffer_from :: "jsval \<Rightarrow> string + byte list" where
  "sample_Buffer_from v =
     (case v of
        Str s \<Rightarrow> Inr (base64url_decode s)
      | _ \<Rightarrow> Inl ''ERR_INVALID_ARG_TYPE'')"

definition sample_externals :: externals where
  "sample_externals =
     \<lparr>subtle_generateKey = (\<lambda>algorithm extractable usages. Inr (1, 2)),
      subtle_importKey = sample_importKey,
      subtle_exportKey_jwk = sample_exportKey_jwk,
      subtle_exportKey_der = sample_exportKey_der,
      subtle_sign = sample_sign,
      subtle_verify = sample_verify,
      base58btc_encode = sample_encode,
      base58btc_decode = sample_decode,
      Buffer_from_base64url = sample_Buffer_from\<rparr>"

definition sample_keyPair :: jsval where
  "sample_keyPair =
     Obj [(''id'', Str ''did:example:1234#key-1''), (''controller'', Str ''did:example:1234''),
          (''publicKey'', CryptoKey 1), (''secretKey'', CryptoKey 2)]"

definition sample_public_keyPair :: jsval where
  "sample_public_keyPair =
     Obj [(''id'', Str ''did:example:1234#key-1''), (''controller'', Str ''did:example:1234''),
          (''publicKey'', CryptoKey 1)]"

definition sample_signer :: capability where
  "sample_signer =
     \<lparr>cap_algorithm = ''PS256'', cap_id = Str ''did:example:1234#key-1'', cap_key = CryptoKey 2\<rparr>"

definition sample_verifier :: capability where
  "sample_verifier =
     \<lparr>cap_algorithm = ''PS256'', cap_id = Str ''did:example:1234#key-1'', cap_key = CryptoKey 1\<rparr>"

text \<open>What the library makes of the sample key pair, for the examples below.\<close>

definition sample_document :: jsval where
  "sample_document =
     Obj [(''type'', Str ''Multikey''),
          (''@context'', Str ''https://w3id.org/security/multikey/v1''),
          (''id'', Str ''did:example:1234#key-1''),
          (''controller'', Str ''did:example:1234''),
          (''publicKeyMultibase'', Str ''z6Mkp''),
          (''publicKeyJwk'', Obj sample_public_jwk),
          (''secretKeyMultibase'', Str ''z3u4S''),
          (''secretKeyJwk'', Obj sample_private_jwk)]"

definition sample_public_document :: jsval where
  "sample_public_document =
     Obj [(''type'', Str ''Multikey''),
          (''@context'', Str ''https://w3id.org/security/multikey/v1''),
          (''id'', Str ''did:example:1234#key-1''),
          (''controller'', Str ''did:example:1234''),
          (''publicKeyMultibase'', Str ''z6Mkp''),
          (''publicKeyJwk'', Obj sample_public_jwk)]"

definition sample_jwk_document :: "string \<Rightarrow> jsval" where
  "sample_jwk_document type =
     Obj [(''type'', Str type), (''id'', Str ''did:example:1234#key-1''),
          (''controller'', Str ''did:example:1234''), (''publicKeyJwk'', Obj sample_public_jwk)]"

definition sample_imported :: "(string \<times> jsval) list \<Rightarrow> jsval" where
  "sample_imported identity =
     Obj ([(''@context'', Str ''https://w3id.org/security/multikey/v1''),
           (''type'', Str ''Multikey''),
           (''publicKeyMultibase'', Str ''z6Mkp''),
           (''publicKeyJwk'', Obj [(''kty'', Str ''RSA''), (''n'', Str ''u1SU1LfVLPHCozMxH2Mo''),
                                   (''e'', Str ''AQAB''), (''alg'', Str ''PS256'')]),
           (''modulusLength'', Num 120)] @ identity @
          [(''publicKey'', CryptoKey 1), (''secretKeyMultibase'', Undefined)])"

definition sample_controller_keyPair :: jsval where
  "sample_controller_keyPair =
     Obj [(''controller'', Str ''did:example:1234''),
          (''publicKey'', CryptoKey 1), (''secretKey'', CryptoKey 2)]"

section \<open>Reading and writing properties\<close>

lemma get_set_prop_Obj:
  "get (set_prop (Obj kvs) k v) k' = (if k' = k then v else get (Obj kvs) k')"
  by (simp add: update_conv')

lemma truthy_get_spread:
  assumes "truthy (get key k)" and "k \<noteq> ''algorithm''"
  shows "spread key = key"
  using assms by (cases key) simp_all

lemma includes_iff: "(isArray c \<and> array_includes c u) = (\<exists>xs. c = Arr xs \<and> u \<in> set xs)"
  by (cases c) simp_all

section \<open>Validation of a Multikey document\<close>

lemma assertMultikey_iff:
  "assertMultikey key = Inr () \<longleftrightarrow>
      (truthy key \<and> typeof key = ''object'') \<and> get key ''type'' = Str ''Multikey'' \<and>
      (get key ''@context'' = Str MULTIKEY_CONTEXT_V1_URL \<or>
       (\<exists>xs. get key ''@context'' = Arr xs \<and> Str MULTIKEY_CONTEXT_V1_URL \<in> set xs))"
  unfolding assertMultikey_def includes_iff by auto


text \<open>
  Claim C4. \<open>assertMultikey\<close> accepts a value exactly when it is a non-null object, its
  \<^verbatim>\<open>type\<close> is the string \<^verbatim>\<open>Multikey\<close>, and its \<^verbatim>\<open>@context\<close> is the fixed Multikey URL or
  an array that contains it. Otherwise it throws a \<^verbatim>\<open>TypeError\<close> whose message names the
  first clause that fails, in that order. A document of type Multikey is accepted with
  the context \<^verbatim>\<open>[{}, URL]\<close> as it is with the bare URL.
\<close>

theorem assertMultikey_accepts:
  "(assertMultikey key = Inr () \<longleftrightarrow>
      (truthy key \<and> typeof key = ''object'') \<and> get key ''type'' = Str ''Multikey'' \<and>
      (get key ''@context'' = Str MULTIKEY_CONTEXT_V1_URL \<or>
       (\<exists>xs. get key ''@context'' = Arr xs \<and> Str MULTIKEY_CONTEXT_V1_URL \<in> set xs))) \<and>
   (\<not> (truthy key \<and> typeof key = ''object'') \<longrightarrow>
      assertMultikey key = Inl (TypeError ''\"key\" must be an object.'')) \<and>
   ((truthy key \<and> typeof key = ''object'') \<and> get key ''type'' \<noteq> Str ''Multikey'' \<longrightarrow>
      assertMultikey key = Inl (TypeError ''\"key\" must be a Multikey with type \"Multikey\".'')) \<and>
   ((truthy key \<and> typeof key = ''object'') \<and> get key ''type'' = Str ''Multikey'' \<and>
    \<not> (get key ''@context'' = Str MULTIKEY_CONTEXT_V1_URL \<or>
       (\<exists>xs. get key ''@context'' = Arr xs \<and> Str MULTIKEY_CONTEXT_V1_URL \<in> set xs)) \<longrightarrow>
      assertMultikey key = Inl (TypeError
        ''\"key\" must be a Multikey with context \"https://w3id.org/security/multikey/v1\".'')) \<and>
   (get (Obj kvs) ''type'' = Str ''Multikey'' \<longrightarrow>
      assertMultikey (set_prop (Obj kvs) ''@context'' (Arr [Obj [], Str MULTIKEY_CONTEXT_V1_URL])) = Inr () \<and>
      assertMultikey (set_prop (Obj kvs) ''@context'' (Str MULTIKEY_CONTEXT_V1_URL)) = Inr ())"
proof (intro conjI impI)
  show "assertMultikey key = Inr () \<longleftrightarrow>
      (truthy key \<and> typeof key = ''object'') \<and> get key ''type'' = Str ''Multikey'' \<and>
      (get key ''@context'' = Str MULTIKEY_CONTEXT_V1_URL \<or>
       (\<exists>xs. get key ''@context'' = Arr xs \<and> Str MULTIKEY_CONTEXT_V1_URL \<in> set xs))"
    by (rule assertMultikey_iff)
next
  assume "\<not> (truthy key \<and> typeof key = ''object'')"
  then show "assertMultikey key = Inl (TypeError ''\"key\" must be an object.'')"
    by (simp add: assertMultikey_def)
next
  assume "(truthy key \<and> typeof key = ''object'') \<and> get key ''type'' \<noteq> Str ''Multikey''"
  then show "assertMultikey key = Inl (TypeError ''\"key\" must be a Multikey with type \"Multikey\".'')"
    by (simp add: assertMultikey_def)
next
  assume "(truthy key \<and> typeof key = ''object'') \<and> get key ''type'' = Str ''Multikey'' \<and>
    \<not> (get key ''@context'' = Str MULTIKEY_CONTEXT_V1_URL \<or>
       (\<exists>xs. get key ''@context'' = Arr xs \<and> Str MULTIKEY_CONTEXT_V1_URL \<in> set xs))"
  then show "assertMultikey key = Inl (TypeError
        ''\"key\" must be a Multikey with context \"https://w3id.org/security/multikey/v1\".'')"
    unfolding assertMultikey_def includes_iff by (simp add: MULTIKEY_CONTEXT_V1_URL_def)
next
  assume t: "get (Obj kvs) ''type'' = Str ''Multikey''"
  obtain kvs' where o: "set_prop (Obj kvs) ''@context'' (Arr [Obj [], Str MULTIKEY_CONTEXT_V1_URL]) = Obj kvs'"
    by simp
  have "get (Obj kvs') ''type'' = Str ''Multikey''" "get (Obj kvs') ''@context'' = Arr [Obj [], Str MULTIKEY_CONTEXT_V1_URL]"
    using t unfolding o [symmetric] get_set_prop_Obj by simp_all
  then show "assertMultikey (set_prop (Obj kvs) ''@context'' (Arr [Obj [], Str MULTIKEY_CONTEXT_V1_URL])) = Inr ()"
    unfolding o assertMultikey_iff by simp
next
  assume t: "get (Obj kvs) ''type'' = Str ''Multikey''"
  obtain kvs' where o: "set_prop (Obj kvs) ''@context'' (Str MULTIKEY_CONTEXT_V1_URL) = Obj kvs'"
    by simp
  have "get (Obj kvs') ''type'' = Str ''Multikey''" "get (Obj kvs') ''@context'' = Str MULTIKEY_CONTEXT_V1_URL"
    using t unfolding o [symmetric] get_set_prop_Obj by simp_all
  then show "assertMultikey (set_prop (Obj kvs) ''@context'' (Str MULTIKEY_CONTEXT_V1_URL)) = Inr ()"
    unfolding o assertMultikey_iff by simp
qed

theorem assertMultikey_accepts_witness:
  "assertMultikey (Obj [(''type'', Str ''Multikey''),
      (''@context'', Arr [Obj [], Str ''https://w3id.org/security/multikey/v1''])]) = Inr () \<and>
   assertMultikey (Obj [(''type'', Str ''Multikey''),
      (''@context'', Str ''https://w3id.org/security/multikey/v1'')]) = Inr () \<and>
   assertMultikey (Obj [(''type'', Str ''JsonWebKey'')]) =
     Inl (TypeError ''\"key\" must be a Multikey with type \"Multikey\".'') \<and>
   assertMultikey (Str ''Multikey'') = Inl (TypeError ''\"key\" must be an object.'')"
  using assertMultikey_accepts [of "Obj [(''type'', Str ''JsonWebKey'')]" "[(''type'', Str ''Multikey'')]"]
    assertMultikey_accepts [of "Str ''Multikey''" "[]"]
  by (simp add: MULTIKEY_CONTEXT_V1_URL_def)

section \<open>The verifier capability\<close>

text \<open>
  Claim C6, as amended. On any verifier capability: when \<^verbatim>\<open>signature\<close> is not a
  \<^verbatim>\<open>Uint8Array\<close> the call throws a \<^verbatim>\<open>TypeError\<close> and has made no engine call; so it does
  when \<^verbatim>\<open>data\<close> is falsy (the empty string included) or neither a string nor a
  \<^verbatim>\<open>Uint8Array\<close>. When \<^verbatim>\<open>signature\<close> is a \<^verbatim>\<open>Uint8Array\<close> and \<^verbatim>\<open>data\<close> is a non-empty string or
  a \<^verbatim>\<open>Uint8Array\<close>, the call makes one engine call, with RSA-PSS and salt length 32, and
  returns a boolean: the engine's answer, or \<^verbatim>\<open>false\<close> when the engine throws.
\<close>

theorem verify_capability:
  "(\<not> instanceof_Uint8Array signature \<longrightarrow>
      fst (verify X v data signature) = [] \<and> is_TypeError (snd (verify X v data signature))) \<and>
   ((\<not> truthy data \<or> ((\<forall>s. data \<noteq> Str s) \<and> (\<forall>bs. data \<noteq> Uint8Array bs))) \<longrightarrow>
      fst (verify X v data signature) = [] \<and> is_TypeError (snd (verify X v data signature))) \<and>
   (signature = Uint8Array sig \<and>
    (data = Uint8Array bytes \<or> (\<exists>s. data = Str s \<and> s \<noteq> [] \<and> bytes = TextEncoder_encode s)) \<longrightarrow>
      verify X v data signature =
        ([Call_verify PSS_PARAMS (cap_key v) sig bytes],
         Inr (Bool (case subtle_verify X PSS_PARAMS (cap_key v) sig bytes of
                      Inl e \<Rightarrow> False | Inr isValid \<Rightarrow> isValid))))"
proof (intro conjI impI)
  assume "\<not> instanceof_Uint8Array signature"
  then show "fst (verify X v data signature) = []"
    by (cases signature; cases data) (simp_all add: verify_def)
next
  assume "\<not> instanceof_Uint8Array signature"
  then show "is_TypeError (snd (verify X v data signature))"
    by (cases signature; cases data) (simp_all add: verify_def)
next
  assume "\<not> truthy data \<or> ((\<forall>s. data \<noteq> Str s) \<and> (\<forall>bs. data \<noteq> Uint8Array bs))"
  then show "fst (verify X v data signature) = []"
    by (cases data) (auto simp: verify_def)
next
  assume "\<not> truthy data \<or> ((\<forall>s. data \<noteq> Str s) \<and> (\<forall>bs. data \<noteq> Uint8Array bs))"
  then show "is_TypeError (snd (verify X v data signature))"
    by (cases data) (auto simp: verify_def)
next
  assume "signature = Uint8Array sig \<and>
    (data = Uint8Array bytes \<or> (\<exists>s. data = Str s \<and> s \<noteq> [] \<and> bytes = TextEncoder_encode s))"
  then show "verify X v data signature =
        ([Call_verify PSS_PARAMS (cap_key v) sig bytes],
         Inr (Bool (case subtle_verify X PSS_PARAMS (cap_key v) sig bytes of
                      Inl e \<Rightarrow> False | Inr isValid \<Rightarrow> isValid)))"
    by (auto simp: verify_def split: sum.splits)
qed

theorem verify_capability_witness:
  "verify sample_externals sample_verifier (Str ''test 1234'')
     (Uint8Array [52, 51, 50, 49, 32, 116, 115, 101, 116]) =
     ([Call_verify PSS_PARAMS (CryptoKey 1) [52, 51, 50, 49, 32, 116, 115, 101, 116]
         [116, 101, 115, 116, 32, 49, 50, 51, 52]], Inr (Bool True)) \<and>
   fst (verify sample_externals sample_verifier (Str ''test 1234'') (Str ''sig'')) = [] \<and>
   is_TypeError (snd (verify sample_externals sample_verifier (Str ''test 1234'') (Str ''sig'')))"
  using verify_capability [of "Uint8Array [52, 51, 50, 49, 32, 116, 115, 101, 116]" sample_externals
      sample_verifier "Str ''test 1234''" "[52, 51, 50, 49, 32, 116, 115, 101, 116]"
      "[116, 101, 115, 116, 32, 49, 50, 51, 52]"]
    verify_capability [of "Str ''sig''" sample_externals sample_verifier "Str ''test 1234''"]
  by (simp add: sample_externals_def sample_verifier_def sample_verify_def
      TextEncoder_encode_def utf8_char_def)

text \<open>
  The claim as stated, that every call with a \<^verbatim>\<open>Uint8Array\<close> signature returns a boolean,
  fails on the empty string as data.
\<close>

theorem verify_empty_data_counterexample:
  "snd (verify sample_externals sample_verifier (Str '''')
     (Uint8Array [52, 51, 50, 49])) = Inl (TypeError ''\"data\" is required.'')"
  by (simp add: verify_def)

section \<open>The signer capability\<close>

text \<open>
  Claim C7, as amended. A capability made by \<open>createSigner\<close> has the algorithm label
  \<^verbatim>\<open>PS256\<close> and signs with the key it was given. \<^verbatim>\<open>sign\<close> on a non-empty string makes one
  engine call, with RSA-PSS, salt length 32 and the UTF-8 bytes of the string; on a
  \<^verbatim>\<open>Uint8Array\<close> one engine call with those bytes as they are; either way it returns the
  signature bytes as a \<^verbatim>\<open>Uint8Array\<close>, or passes on what the engine threw. On the empty
  string, as on every falsy value, it throws the \<^verbatim>\<open>TypeError\<close> of missing data, and on a
  value of any other type a \<^verbatim>\<open>TypeError\<close>; in both cases without an engine call.
\<close>

theorem sign_capability:
  "(createSigner id0 secretKey = Inr c \<longrightarrow> cap_algorithm c = ''PS256'' \<and> cap_key c = secretKey) \<and>
   (s \<noteq> [] \<longrightarrow>
      sign X c (Str s) =
        ([Call_sign PSS_PARAMS (cap_key c) (TextEncoder_encode s)],
         case subtle_sign X PSS_PARAMS (cap_key c) (TextEncoder_encode s) of
           Inl e \<Rightarrow> Inl (Thrown e) | Inr signature \<Rightarrow> Inr (Uint8Array signature))) \<and>
   sign X c (Uint8Array bs) =
     ([Call_sign PSS_PARAMS (cap_key c) bs],
      case subtle_sign X PSS_PARAMS (cap_key c) bs of
        Inl e \<Rightarrow> Inl (Thrown e) | Inr signature \<Rightarrow> Inr (Uint8Array signature)) \<and>
   sign X c (Str []) = ([], Inl (TypeError ''\"data\" is required.'')) \<and>
   (\<not> truthy data \<longrightarrow> sign X c data = ([], Inl (TypeError ''\"data\" is required.''))) \<and>
   ((\<forall>s. data \<noteq> Str s) \<and> (\<forall>bs. data \<noteq> Uint8Array bs) \<longrightarrow>
      fst (sign X c data) = [] \<and> is_TypeError (snd (sign X c data)))"
proof (intro conjI impI)
  assume "createSigner id0 secretKey = Inr c"
  then show "cap_algorithm c = ''PS256''" "cap_key c = secretKey"
    by (auto simp: createSigner_def split: if_splits)
next
  assume "s \<noteq> []"
  then show "sign X c (Str s) =
        ([Call_sign PSS_PARAMS (cap_key c) (TextEncoder_encode s)],
         case subtle_sign X PSS_PARAMS (cap_key c) (TextEncoder_encode s) of
           Inl e \<Rightarrow> Inl (Thrown e) | Inr signature \<Rightarrow> Inr (Uint8Array signature))"
    by (simp add: sign_def split: sum.splits)
next
  show "sign X c (Uint8Array bs) =
     ([Call_sign PSS_PARAMS (cap_key c) bs],
      case subtle_sign X PSS_PARAMS (cap_key c) bs of
        Inl e \<Rightarrow> Inl (Thrown e) | Inr signature \<Rightarrow> Inr (Uint8Array signature))"
    by (simp add: sign_def split: sum.splits)
next
  show "sign X c (Str []) = ([], Inl (TypeError ''\"data\" is required.''))"
    by (simp add: sign_def)
next
  assume "\<not> truthy data"
  then show "sign X c data = ([], Inl (TypeError ''\"data\" is required.''))"
    by (simp add: sign_def)
next
  assume other: "(\<forall>s. data \<noteq> Str s) \<and> (\<forall>bs. data \<noteq> Uint8Array bs)"
  then show "fst (sign X c data) = []"
    by (cases data) (simp_all add: sign_def)
  from other show "is_TypeError (snd (sign X c data))"
    by (cases data) (simp_all add: sign_def)
qed

theorem sign_capability_witness:
  "createSigner (Str ''did:example:1234#key-1'') (CryptoKey 2) = Inr sample_signer \<and>
   cap_algorithm sample_signer = ''PS256'' \<and>
   sign sample_externals sample_signer (Str ''test 1234'') =
     ([Call_sign PSS_PARAMS (CryptoKey 2) [116, 101, 115, 116, 32, 49, 50, 51, 52]],
      Inr (Uint8Array [52, 51, 50, 49, 32, 116, 115, 101, 116])) \<and>
   fst (sign sample_externals sample_signer (Num 7)) = [] \<and>
   is_TypeError (snd (sign sample_externals sample_signer (Num 7)))"
  using sign_capability [of "Str ''did:example:1234#key-1''" "CryptoKey 2" sample_signer
      "''test 1234''" sample_externals "[]" "Num 7"]
  by (simp add: createSigner_def sample_signer_def sample_externals_def sample_sign_def
      TextEncoder_encode_def utf8_char_def)

text \<open>
  The claim as stated, that every string is encoded and signed, fails on the empty string.
\<close>

theorem sign_empty_string_counterexample:
  "sign sample_externals sample_signer (Str '''') = ([], Inl (TypeError ''\"data\" is required.''))"
  by (simp add: sign_def)

section \<open>The modulus length of a JWK\<close>

text \<open>
  Claim C8, as amended. For a JWK whose \<^verbatim>\<open>n\<close> is truthy (a non-empty string, for a string),
  the modulus length is 8 times the number of bytes \<^verbatim>\<open>Buffer.from(n, 'base64url')\<close> gives,
  whatever those bytes are: an \<^verbatim>\<open>n\<close> that decodes to the modulus without its leading zero
  byte reports 8 bits less than one that decodes to it with that byte. A JWK without \<^verbatim>\<open>n\<close>,
  or with a falsy one such as the empty string, is rejected with a \<^verbatim>\<open>TypeError\<close>.
\<close>

theorem modulus_length_from_jwk:
  "(truthy (get jwk ''n'') \<longrightarrow>
      getModulusLengthFromJwk X jwk =
        (case Buffer_from_base64url X (get jwk ''n'') of
           Inl e \<Rightarrow> Inl (Thrown e)
         | Inr nBytes \<Rightarrow> Inr (Num (8 * int (length nBytes))))) \<and>
   (\<not> truthy (get jwk ''n'') \<longrightarrow>
      getModulusLengthFromJwk X jwk = Inl (TypeError ''\"jwk\" must have an \"n\" property.'')) \<and>
   (truthy (get jwk ''n'') \<and> truthy (get jwk' ''n'') \<and>
    Buffer_from_base64url X (get jwk ''n'') = Inr (0 # bs) \<and>
    Buffer_from_base64url X (get jwk' ''n'') = Inr bs \<longrightarrow>
      getModulusLengthFromJwk X jwk = Inr (Num (8 * int (length bs) + 8)) \<and>
      getModulusLengthFromJwk X jwk' = Inr (Num (8 * int (length bs))))"
proof -
  have obj: "truthy j" if "truthy (get j ''n'')" for j
    using that by (cases j) simp_all
  show ?thesis
    by (auto simp: getModulusLengthFromJwk_def obj split: sum.splits)
qed

theorem modulus_length_from_jwk_witness:
  "getModulusLengthFromJwk sample_externals (Obj [(''kty'', Str ''RSA''), (''n'', Str ''AAE''), (''e'', Str ''AQAB'')]) = Inr (Num 16) \<and>
   getModulusLengthFromJwk sample_externals (Obj [(''kty'', Str ''RSA''), (''n'', Str ''AQ''), (''e'', Str ''AQAB'')]) = Inr (Num 8) \<and>
   getModulusLengthFromJwk sample_externals (Obj [(''kty'', Str ''RSA''), (''e'', Str ''AQAB'')]) =
     Inl (TypeError ''\"jwk\" must have an \"n\" property.'')"
  using modulus_length_from_jwk [of "Obj [(''kty'', Str ''RSA''), (''n'', Str ''AAE''), (''e'', Str ''AQAB'')]"
      sample_externals "Obj [(''kty'', Str ''RSA''), (''n'', Str ''AQ''), (''e'', Str ''AQAB'')]" "[1]"]
    modulus_length_from_jwk [of "Obj [(''kty'', Str ''RSA''), (''e'', Str ''AQAB'')]" sample_externals]
  by (simp add: sample_externals_def sample_Buffer_from_def base64url_decode_def
      base64url_value_def List.map_filter_simps)

text \<open>
  The claim as stated, that every JWK with an \<^verbatim>\<open>n\<close> field gets 8 times the byte length of
  the decoded \<^verbatim>\<open>n\<close>, fails on the empty \<^verbatim>\<open>n\<close>: the field is there and decodes to no bytes,
  and the JWK is rejected.
\<close>

theorem modulus_length_empty_n_counterexample:
  "has_prop (Obj [(''kty'', Str ''RSA''), (''n'', Str []), (''e'', Str ''AQAB'')]) ''n'' \<and>
   Buffer_from_base64url sample_externals (Str []) = Inr [] \<and>
   getModulusLengthFromJwk sample_externals
     (Obj [(''kty'', Str ''RSA''), (''n'', Str []), (''e'', Str ''AQAB'')]) =
     Inl (TypeError ''\"jwk\" must have an \"n\" property.'')"
  by (simp add: getModulusLengthFromJwk_def sample_externals_def sample_Buffer_from_def
      base64url_decode_def List.map_filter_simps)

section \<open>The steps of the document export\<close>

lemma external_Inr_iff [simp]: "external r = Inr v \<longleftrightarrow> r = Inr v"
  by (cases r) simp_all

lemma external_Inl_iff [simp]: "external r = Inl e \<longleftrightarrow> (\<exists>n. r = Inl n \<and> e = Thrown n)"
  by (cases r) auto

lemma export_header_Obj: "\<exists>kvs. export_header keyPair c = Obj kvs"
  by (simp add: export_header_def Let_def)

lemma get_export_header:
  "get (export_header keyPair c) k =
     (if k = ''controller'' \<and> truthy (get keyPair ''controller'') then get keyPair ''controller''
      else if k = ''id'' \<and> truthy (get keyPair ''id'') then get keyPair ''id''
      else if k = ''@context'' \<and> truthy c then Str ''https://w3id.org/security/multikey/v1''
      else if k = ''type'' then Str ''Multikey'' else Undefined)"
  by (simp add: export_header_def Let_def)

lemma has_export_header:
  "has_prop (export_header keyPair c) k \<longleftrightarrow>
     k = ''type'' \<or> (k = ''@context'' \<and> truthy c) \<or> (k = ''id'' \<and> truthy (get keyPair ''id'')) \<or>
     (k = ''controller'' \<and> truthy (get keyPair ''controller''))"
  by (auto simp: export_header_def Let_def)

text \<open>
  What a successful public step, and a successful secret step, of the export has done:
  the engine calls that answered, and the two properties written.
\<close>

lemma export_public_Inr:
  assumes "export_public X keyPair p (Obj h) = Inr r"
    and "truthy p" and "truthy (get keyPair ''publicKey'')"
  shows "\<exists>props key bytes.
     subtle_exportKey_jwk X (get keyPair ''publicKey'') = Inr props \<and>
     subtle_importKey X ''jwk'' (Obj props) RSA_PSS_SHA256 True [''verify''] = Inr key \<and>
     subtle_exportKey_der X ''spki'' (CryptoKey key) = Inr bytes \<and>
     r = set_prop (set_prop (Obj h) ''publicKeyMultibase'' (Str (base58btc_encode X bytes)))
           ''publicKeyJwk'' (Obj props)"
  using assms
  by (cases "subtle_exportKey_jwk X (get keyPair ''publicKey'')")
     (auto simp: export_public_def exportKey_jwk_def toPublicKeyBytes_def toPublicKeyMultibase_def
       split: sum.splits if_splits)

lemma export_secret_Inr:
  assumes "export_secret X keyPair s (Obj h) = Inr r"
    and "truthy s" and "truthy (get keyPair ''secretKey'')"
  shows "\<exists>props key bytes.
     subtle_exportKey_jwk X (get keyPair ''secretKey'') = Inr props \<and>
     truthy (get (Obj props) ''d'') \<and>
     subtle_importKey X ''jwk'' (Obj props) RSA_PSS_SHA256 True [''sign''] = Inr key \<and>
     subtle_exportKey_der X ''pkcs8'' (CryptoKey key) = Inr bytes \<and>
     r = set_prop (set_prop (Obj h) ''secretKeyMultibase'' (Str (base58btc_encode X bytes)))
           ''secretKeyJwk'' (Obj props)"
  using assms
  by (cases "subtle_exportKey_jwk X (get keyPair ''secretKey'')")
     (auto simp: export_secret_def exportKey_jwk_def toSecretKeyBytes_def toSecretKeyMultibase_def
       split: sum.splits if_splits)

lemma export_public_skip:
  "\<not> (truthy p \<and> truthy (get keyPair ''publicKey'')) \<Longrightarrow> export_public X keyPair p r = Inr r"
  by (auto simp: export_public_def)

lemma export_secret_skip:
  "\<not> (truthy s \<and> truthy (get keyPair ''secretKey'')) \<Longrightarrow> export_secret X keyPair s r = Inr r"
  by (auto simp: export_secret_def)

lemma export_public_result:
  assumes "export_public X keyPair p (Obj kvs) = Inr r"
  shows "\<exists>kvs'. r = Obj kvs' \<and>
     (\<forall>k. has_prop r k \<longleftrightarrow> has_prop (Obj kvs) k \<or>
        ((k = ''publicKeyMultibase'' \<or> k = ''publicKeyJwk'') \<and> truthy p \<and> truthy (get keyPair ''publicKey'')))"
  using assms
  by (auto simp: export_public_def update_conv' split: if_splits sum.splits)

lemma export_secret_result:
  assumes "export_secret X keyPair s (Obj kvs) = Inr r"
  shows "\<exists>kvs'. r = Obj kvs' \<and>
     (\<forall>k. has_prop r k \<longleftrightarrow> has_prop (Obj kvs) k \<or>
        ((k = ''secretKeyMultibase'' \<or> k = ''secretKeyJwk'') \<and> truthy s \<and> truthy (get keyPair ''secretKey'')))"
  using assms
  by (auto simp: export_secret_def update_conv' split: if_splits sum.splits)

lemma exportKeyPair_props:
  assumes "exportKeyPair X keyPair publicKey secretKey includeContext = Inr doc"
  shows "has_prop doc k \<longleftrightarrow>
     k = ''type'' \<or> (k = ''@context'' \<and> truthy (dflt includeContext (Bool True))) \<or>
     (k = ''id'' \<and> truthy (get keyPair ''id'')) \<or>
     (k = ''controller'' \<and> truthy (get keyPair ''controller'')) \<or>
     ((k = ''publicKeyMultibase'' \<or> k = ''publicKeyJwk'') \<and>
        truthy (dflt publicKey (Bool True)) \<and> truthy (get keyPair ''publicKey'')) \<or>
     ((k = ''secretKeyMultibase'' \<or> k = ''secretKeyJwk'') \<and>
        truthy (dflt secretKey (Bool False)) \<and> truthy (get keyPair ''secretKey''))"
proof -
  obtain h where h: "export_header keyPair (dflt includeContext (Bool True)) = Obj h"
    using export_header_Obj by blast
  from assms obtain r where
    r: "export_public X keyPair (dflt publicKey (Bool True)) (Obj h) = Inr r" and
    d: "export_secret X keyPair (dflt secretKey (Bool False)) r = Inr doc"
    by (auto simp: exportKeyPair_def Let_def h split: if_splits sum.splits)
  from export_public_result [OF r] obtain kvs' where
    r': "r = Obj kvs'" and
    pr: "\<And>k. has_prop r k \<longleftrightarrow> has_prop (Obj h) k \<or>
        ((k = ''publicKeyMultibase'' \<or> k = ''publicKeyJwk'') \<and>
         truthy (dflt publicKey (Bool True)) \<and> truthy (get keyPair ''publicKey''))"
    by blast
  from export_secret_result [OF d [unfolded r']] have A:
    "has_prop doc k \<longleftrightarrow> has_prop r k \<or>
        ((k = ''secretKeyMultibase'' \<or> k = ''secretKeyJwk'') \<and>
         truthy (dflt secretKey (Bool False)) \<and> truthy (get keyPair ''secretKey''))"
    unfolding r' by blast
  have C: "has_prop (Obj h) k \<longleftrightarrow>
     k = ''type'' \<or> (k = ''@context'' \<and> truthy (dflt includeContext (Bool True))) \<or>
     (k = ''id'' \<and> truthy (get keyPair ''id'')) \<or>
     (k = ''controller'' \<and> truthy (get keyPair ''controller''))"
    using has_export_header [of keyPair "dflt includeContext (Bool True)" k] unfolding h .
  show ?thesis
    unfolding A pr C by argo
qed

text \<open>
  The export of an object never throws a \<^verbatim>\<open>TypeError\<close> of the library: what can fail in it
  is the engine, or a secret JWK without \<^verbatim>\<open>d\<close>.
\<close>

lemma export_public_no_TypeError:
  "export_public X keyPair p r \<noteq> Inl (TypeError m)"
  by (cases "subtle_exportKey_jwk X (get keyPair ''publicKey'')")
     (auto simp: export_public_def exportKey_jwk_def toPublicKeyBytes_def toPublicKeyMultibase_def
       split: sum.splits if_splits)

lemma export_secret_no_TypeError:
  "export_secret X keyPair s r \<noteq> Inl (TypeError m)"
  by (cases "subtle_exportKey_jwk X (get keyPair ''secretKey'')")
     (auto simp: export_secret_def exportKey_jwk_def toSecretKeyBytes_def toSecretKeyMultibase_def
       split: sum.splits if_splits)

lemma exportKeyPair_no_TypeError:
  "exportKeyPair X (Obj kvs) p s c \<noteq> Inl (TypeError m)"
  by (auto simp: exportKeyPair_def Let_def export_public_no_TypeError export_secret_no_TypeError
      split: sum.splits)

lemma exportKeyPair_multibase:
  assumes e: "exportKeyPair X keyPair p s c = Inr doc"
    and p: "truthy (dflt p (Bool True))" and k: "truthy (get keyPair ''publicKey'')"
  shows "\<exists>props key bytes.
     subtle_exportKey_jwk X (get keyPair ''publicKey'') = Inr props \<and>
     subtle_importKey X ''jwk'' (Obj props) RSA_PSS_SHA256 True [''verify''] = Inr key \<and>
     subtle_exportKey_der X ''spki'' (CryptoKey key) = Inr bytes \<and>
     get doc ''publicKeyMultibase'' = Str (base58btc_encode X bytes)"
proof -
  obtain h where h: "export_header keyPair (dflt c (Bool True)) = Obj h"
    using export_header_Obj by blast
  from e obtain r where
    r: "export_public X keyPair (dflt p (Bool True)) (Obj h) = Inr r" and
    d: "export_secret X keyPair (dflt s (Bool False)) r = Inr doc"
    by (auto simp: exportKeyPair_def Let_def h split: if_splits sum.splits)
  from export_public_Inr [OF r p k] obtain props key bytes where
    1: "subtle_exportKey_jwk X (get keyPair ''publicKey'') = Inr props"
       "subtle_importKey X ''jwk'' (Obj props) RSA_PSS_SHA256 True [''verify''] = Inr key"
       "subtle_exportKey_der X ''spki'' (CryptoKey key) = Inr bytes" and
    r': "r = set_prop (set_prop (Obj h) ''publicKeyMultibase'' (Str (base58btc_encode X bytes)))
           ''publicKeyJwk'' (Obj props)"
    by blast
  obtain kvs where kvs: "r = Obj kvs" and g: "get (Obj kvs) ''publicKeyMultibase'' = Str (base58btc_encode X bytes)"
    unfolding r' by (simp add: update_conv')
  have "get doc ''publicKeyMultibase'' = Str (base58btc_encode X bytes)"
  proof (cases "truthy (dflt s (Bool False)) \<and> truthy (get keyPair ''secretKey'')")
    case True
    with export_secret_Inr [OF d [unfolded kvs]] g show ?thesis
      by (auto simp: update_conv')
  next
    case False
    with d g kvs show ?thesis by (simp add: export_secret_skip)
  qed
  with 1 show ?thesis by blast
qed

text \<open>
  The export reads the key pair only through \<^verbatim>\<open>id\<close>, \<^verbatim>\<open>controller\<close> and the two keys.
\<close>

lemma export_header_eq:
  assumes "truthy (get a ''id'') \<longleftrightarrow> truthy (get b ''id'')"
    and "truthy (get b ''id'') \<Longrightarrow> get a ''id'' = get b ''id''"
    and "truthy (get a ''controller'') \<longleftrightarrow> truthy (get b ''controller'')"
    and "truthy (get b ''controller'') \<Longrightarrow> get a ''controller'' = get b ''controller''"
  shows "export_header a c = export_header b c"
  using assms by (auto simp: export_header_def Let_def)

lemma export_public_eq:
  assumes "exportKey_jwk X (get a ''publicKey'') = exportKey_jwk X (get b ''publicKey'')"
    and "truthy (get a ''publicKey'') \<longleftrightarrow> truthy (get b ''publicKey'')"
  shows "export_public X a p r = export_public X b p r"
  using assms by (simp add: export_public_def)

lemma export_secret_eq:
  assumes "exportKey_jwk X (get a ''secretKey'') = exportKey_jwk X (get b ''secretKey'')"
    and "truthy (get a ''secretKey'') \<longleftrightarrow> truthy (get b ''secretKey'')"
  shows "export_secret X a s r = export_secret X b s r"
  using assms by (simp add: export_secret_def)

lemma exportKeyPair_eq:
  assumes "export_header a (dflt c (Bool True)) = export_header b (dflt c (Bool True))"
    and "\<And>r. export_public X a (dflt p (Bool True)) r = export_public X b (dflt p (Bool True)) r"
    and "\<And>r. export_secret X a (dflt s (Bool False)) r = export_secret X b (dflt s (Bool False)) r"
    and "truthy a \<and> typeof a = ''object''" and "truthy b \<and> typeof b = ''object''"
  shows "exportKeyPair X a p s c = exportKeyPair X b p s c"
  using assms by (simp add: exportKeyPair_def Let_def split: sum.splits)

lemma sample_export:
  "exportKeyPair sample_externals sample_keyPair (Bool True) (Bool True) (Bool True) =
   Inr sample_document"
  by code_simp

lemma sample_public_export:
  "exportKeyPair sample_externals sample_public_keyPair (Bool True) (Bool True) (Bool True) =
   Inr sample_public_document"
  by code_simp

section \<open>Omission of the secret half\<close>

lemma sample_export_without_secret:
  "exportKeyPair sample_externals sample_keyPair (Bool True) (Bool False) (Bool True) =
   Inr sample_public_document"
  by code_simp

text \<open>
  Claim C5. A document export that succeeds carries \<^verbatim>\<open>secretKeyMultibase\<close>, and likewise
  \<^verbatim>\<open>secretKeyJwk\<close>, exactly when the secret half was requested and the key pair holds a
  secret key. On a key pair without a secret key, asking for the secret changes nothing:
  the export has the outcome it has without the request, so the secret is left out
  silently and no error comes from the request. On a key pair with a secret key, asked
  for it, the export succeeds wherever the export without the secret succeeds and the
  engine answers for the secret key (its JWK, with a \<^verbatim>\<open>d\<close>, and the PKCS#8 bytes of that
  JWK): the document is then the one without the secret, followed by
  \<^verbatim>\<open>secretKeyMultibase\<close>, the multibase text of those bytes, and \<^verbatim>\<open>secretKeyJwk\<close>, that JWK.
\<close>

theorem export_secret_omitted:
  "(exportKeyPair X keyPair publicKey secretKey includeContext = Inr doc \<longrightarrow>
      (has_prop doc ''secretKeyMultibase'' \<longleftrightarrow>
         truthy (dflt secretKey (Bool False)) \<and> truthy (get keyPair ''secretKey'')) \<and>
      (has_prop doc ''secretKeyJwk'' \<longleftrightarrow>
         truthy (dflt secretKey (Bool False)) \<and> truthy (get keyPair ''secretKey''))) \<and>
   (\<not> truthy (get keyPair ''secretKey'') \<longrightarrow>
      exportKeyPair X keyPair publicKey (Bool True) includeContext =
      exportKeyPair X keyPair publicKey (Bool False) includeContext) \<and>
   (truthy (dflt secretKey (Bool False)) \<and> truthy (get keyPair ''secretKey'') \<and>
    exportKeyPair X keyPair publicKey (Bool False) includeContext = Inr without \<and>
    subtle_exportKey_jwk X (get keyPair ''secretKey'') = Inr props \<and>
    truthy (get (Obj props) ''d'') \<and>
    subtle_importKey X ''jwk'' (Obj props) RSA_PSS_SHA256 True [''sign''] = Inr key \<and>
    subtle_exportKey_der X ''pkcs8'' (CryptoKey key) = Inr bytes \<longrightarrow>
      exportKeyPair X keyPair publicKey secretKey includeContext =
        Inr (set_prop
              (set_prop without ''secretKeyMultibase'' (Str (base58btc_encode X bytes)))
              ''secretKeyJwk'' (Obj props)))"
proof (intro conjI impI)
  assume e: "exportKeyPair X keyPair publicKey secretKey includeContext = Inr doc"
  show "has_prop doc ''secretKeyMultibase'' \<longleftrightarrow>
         truthy (dflt secretKey (Bool False)) \<and> truthy (get keyPair ''secretKey'')"
    unfolding exportKeyPair_props [OF e] by simp
  show "has_prop doc ''secretKeyJwk'' \<longleftrightarrow>
         truthy (dflt secretKey (Bool False)) \<and> truthy (get keyPair ''secretKey'')"
    unfolding exportKeyPair_props [OF e] by simp
next
  assume "\<not> truthy (get keyPair ''secretKey'')"
  then show "exportKeyPair X keyPair publicKey (Bool True) includeContext =
      exportKeyPair X keyPair publicKey (Bool False) includeContext"
    by (simp add: exportKeyPair_def export_secret_def dflt_def split: sum.splits)
next
  assume a: "truthy (dflt secretKey (Bool False)) \<and> truthy (get keyPair ''secretKey'') \<and>
    exportKeyPair X keyPair publicKey (Bool False) includeContext = Inr without \<and>
    subtle_exportKey_jwk X (get keyPair ''secretKey'') = Inr props \<and>
    truthy (get (Obj props) ''d'') \<and>
    subtle_importKey X ''jwk'' (Obj props) RSA_PSS_SHA256 True [''sign''] = Inr key \<and>
    subtle_exportKey_der X ''pkcs8'' (CryptoKey key) = Inr bytes"
  have F: "dflt (Bool False) (Bool False) = Bool False"
    by (simp add: dflt_def)
  from a have w: "exportKeyPair X keyPair publicKey (Bool False) includeContext = Inr without"
    by blast
  then have obj: "truthy keyPair \<and> typeof keyPair = ''object''"
    by (auto simp: exportKeyPair_def Let_def split: if_splits)
  from w obj have pub: "export_public X keyPair (dflt publicKey (Bool True))
      (export_header keyPair (dflt includeContext (Bool True))) = Inr without"
    by (auto simp: exportKeyPair_def Let_def F export_secret_skip split: sum.splits)
  have sec: "export_secret X keyPair (dflt secretKey (Bool False)) without =
      Inr (set_prop
            (set_prop without ''secretKeyMultibase'' (Str (base58btc_encode X bytes)))
            ''secretKeyJwk'' (Obj props))"
    using a
    by (simp add: export_secret_def exportKey_jwk_def toSecretKeyBytes_def
        toSecretKeyMultibase_def del: get.simps(1) set_prop.simps(1))
  show "exportKeyPair X keyPair publicKey secretKey includeContext =
        Inr (set_prop
              (set_prop without ''secretKeyMultibase'' (Str (base58btc_encode X bytes)))
              ''secretKeyJwk'' (Obj props))"
    using obj by (simp add: exportKeyPair_def Let_def pub sec)
qed

theorem export_secret_omitted_witness:
  "exportKeyPair sample_externals sample_public_keyPair (Bool True) (Bool True) (Bool True) =
     Inr sample_public_document \<and>
   \<not> has_prop sample_public_document ''secretKeyMultibase'' \<and>
   \<not> has_prop sample_public_document ''secretKeyJwk'' \<and>
   exportKeyPair sample_externals sample_public_keyPair (Bool True) (Bool False) (Bool True) =
     Inr sample_public_document \<and>
   exportKeyPair sample_externals sample_keyPair (Bool True) (Bool True) (Bool True) =
     Inr sample_document \<and>
   has_prop sample_document ''secretKeyMultibase'' \<and> has_prop sample_document ''secretKeyJwk'' \<and>
   get sample_document ''secretKeyMultibase'' = Str ''z3u4S'' \<and>
   get sample_document ''secretKeyJwk'' = Obj sample_private_jwk \<and>
   exportKeyPair sample_externals sample_keyPair (Bool True) (Bool False) (Bool True) =
     Inr sample_public_document"
proof -
  have held: "truthy (dflt (Bool True) (Bool False)) \<and> truthy (get sample_keyPair ''secretKey'') \<and>
    exportKeyPair sample_externals sample_keyPair (Bool True) (Bool False) (Bool True) =
      Inr sample_public_document \<and>
    subtle_exportKey_jwk sample_externals (get sample_keyPair ''secretKey'') =
      Inr sample_private_jwk \<and>
    truthy (get (Obj sample_private_jwk) ''d'') \<and>
    subtle_importKey sample_externals ''jwk'' (Obj sample_private_jwk) RSA_PSS_SHA256 True
      [''sign''] = Inr 2 \<and>
    subtle_exportKey_der sample_externals ''pkcs8'' (CryptoKey 2) = Inr sample_pkcs8"
  proof (intro conjI)
    show "exportKeyPair sample_externals sample_keyPair (Bool True) (Bool False) (Bool True) =
      Inr sample_public_document"
      by (rule sample_export_without_secret)
  qed (simp_all add: dflt_def sample_keyPair_def sample_externals_def sample_exportKey_jwk_def
      sample_importKey_def sample_exportKey_der_def sample_private_jwk_def)
  have doc: "set_prop
       (set_prop sample_public_document ''secretKeyMultibase''
          (Str (base58btc_encode sample_externals sample_pkcs8)))
       ''secretKeyJwk'' (Obj sample_private_jwk) = sample_document"
    by code_simp
  have included: "exportKeyPair sample_externals sample_keyPair (Bool True) (Bool True) (Bool True) =
     Inr sample_document"
    using export_secret_omitted [of sample_externals sample_keyPair "Bool True" "Bool True"
        "Bool True" sample_document sample_public_document sample_private_jwk 2 sample_pkcs8,
        THEN conjunct2, THEN conjunct2, THEN mp, OF held]
    unfolding doc .
  have nosecret: "\<not> truthy (get sample_public_keyPair ''secretKey'')"
    by (simp add: sample_public_keyPair_def)
  have same: "exportKeyPair sample_externals sample_public_keyPair (Bool True) (Bool True)
       (Bool True) =
     exportKeyPair sample_externals sample_public_keyPair (Bool True) (Bool False) (Bool True)"
    using export_secret_omitted [of sample_externals sample_public_keyPair "Bool True" "Bool True"
        "Bool True" sample_public_document, THEN conjunct2, THEN conjunct1, THEN mp, OF nosecret] .
  have fields: "\<not> has_prop sample_public_document ''secretKeyMultibase''"
    "\<not> has_prop sample_public_document ''secretKeyJwk''"
    "has_prop sample_document ''secretKeyMultibase''" "has_prop sample_document ''secretKeyJwk''"
    "get sample_document ''secretKeyMultibase'' = Str ''z3u4S''"
    "get sample_document ''secretKeyJwk'' = Obj sample_private_jwk"
    by (simp_all add: sample_public_document_def sample_document_def)
  show ?thesis
    using included same sample_public_export sample_export_without_secret fields by simp
qed

section \<open>Export, import, export\<close>

lemma sample_stable:
  assumes "subtle_exportKey_jwk sample_externals key = Inr props"
    and "subtle_importKey sample_externals ''jwk'' (Obj props) RSA_PSS_SHA256 True usages = Inr h"
  shows "subtle_exportKey_jwk sample_externals (CryptoKey h) = Inr props"
  using assms
  by (auto simp: sample_externals_def sample_exportKey_jwk_def sample_importKey_def
      sample_public_jwk_def sample_private_jwk_def split: if_splits)

text \<open>
  Claim C1. Assume of the engine that a JWK it exported, when it imports it again (for
  \<^verbatim>\<open>verify\<close>, or for \<^verbatim>\<open>sign\<close>), gives a key that it exports as the same JWK. Then for
  every key pair that holds a public key (with or without a secret key): if the export with public and secret halves succeeds,
  \<open>importKeyPair\<close> of the document succeeds, and the export of the imported pair under the
  same options is the same document, property for property and in the same order.
\<close>

theorem export_import_roundtrip:
  assumes stable_public: "\<And>key props h.
        subtle_exportKey_jwk X key = Inr props \<Longrightarrow>
        subtle_importKey X ''jwk'' (Obj props) RSA_PSS_SHA256 True [''verify''] = Inr h \<Longrightarrow>
        subtle_exportKey_jwk X (CryptoKey h) = Inr props"
    and stable_secret: "\<And>key props h.
        subtle_exportKey_jwk X key = Inr props \<Longrightarrow>
        subtle_importKey X ''jwk'' (Obj props) RSA_PSS_SHA256 True [''sign''] = Inr h \<Longrightarrow>
        subtle_exportKey_jwk X (CryptoKey h) = Inr props"
    and pk: "truthy (get keyPair ''publicKey'')"
    and e: "exportKeyPair X keyPair (Bool True) (Bool True) includeContext = Inr doc"
  shows "\<exists>imported. importKeyPair X doc = Inr imported \<and>
     exportKeyPair X imported (Bool True) (Bool True) includeContext = Inr doc"
proof -
  have kp: "truthy keyPair \<and> typeof keyPair = ''object''"
    using e by (auto simp: exportKeyPair_def Let_def split: if_splits)
  obtain h where h: "export_header keyPair (dflt includeContext (Bool True)) = Obj h"
    using export_header_Obj by blast
  have hg: "get (Obj h) k =
     (if k = ''controller'' \<and> truthy (get keyPair ''controller'') then get keyPair ''controller''
      else if k = ''id'' \<and> truthy (get keyPair ''id'') then get keyPair ''id''
      else if k = ''@context'' \<and> truthy (dflt includeContext (Bool True))
      then Str ''https://w3id.org/security/multikey/v1''
      else if k = ''type'' then Str ''Multikey'' else Undefined)" for k
    using get_export_header [of keyPair "dflt includeContext (Bool True)" k] unfolding h .
  have T: "dflt (Bool True) (Bool True) = Bool True" "dflt (Bool True) (Bool False) = Bool True"
    by (simp_all add: dflt_def)
  from e obtain r where
    r: "export_public X keyPair (Bool True) (Obj h) = Inr r" and
    d: "export_secret X keyPair (Bool True) r = Inr doc"
    by (auto simp: exportKeyPair_def Let_def h T split: if_splits sum.splits)
  from export_public_Inr [OF r _ pk] obtain props1 key1 bytes1 where
    p1: "subtle_exportKey_jwk X (get keyPair ''publicKey'') = Inr props1"
        "subtle_importKey X ''jwk'' (Obj props1) RSA_PSS_SHA256 True [''verify''] = Inr key1" and
    r': "r = set_prop (set_prop (Obj h) ''publicKeyMultibase'' (Str (base58btc_encode X bytes1)))
           ''publicKeyJwk'' (Obj props1)"
    by auto
  obtain rk where rk: "r = Obj rk" unfolding r' by simp
  have rg: "get (Obj rk) k =
     (if k = ''publicKeyJwk'' then Obj props1
      else if k = ''publicKeyMultibase'' then Str (base58btc_encode X bytes1)
      else get (Obj h) k)" for k
    unfolding rk [symmetric] r' by (simp add: update_conv')
  have back1: "exportKey_jwk X (CryptoKey key1) = exportKey_jwk X (get keyPair ''publicKey'')"
    using stable_public [OF p1] p1(1) by (simp add: exportKey_jwk_def)
  show ?thesis
  proof (cases "truthy (get keyPair ''secretKey'')")
    case True
    from export_secret_Inr [OF d [unfolded rk] _ True] obtain props2 key2 bytes2 where
      p2: "subtle_exportKey_jwk X (get keyPair ''secretKey'') = Inr props2"
          "subtle_importKey X ''jwk'' (Obj props2) RSA_PSS_SHA256 True [''sign''] = Inr key2" and
      d': "doc = set_prop (set_prop (Obj rk) ''secretKeyMultibase'' (Str (base58btc_encode X bytes2)))
             ''secretKeyJwk'' (Obj props2)"
      by auto
    obtain dk where dk: "doc = Obj dk" unfolding d' by simp
    have dg: "get (Obj dk) k =
       (if k = ''secretKeyJwk'' then Obj props2
        else if k = ''secretKeyMultibase'' then Str (base58btc_encode X bytes2)
        else get (Obj rk) k)" for k
      unfolding dk [symmetric] d' by (simp add: update_conv')
    let ?imported = "set_prop (set_prop (Obj dk) ''publicKey'' (CryptoKey key1))
                       ''secretKey'' (CryptoKey key2)"
    have imp: "importKeyPair X doc = Inr ?imported"
      unfolding dk importKeyPair_def
      by (simp add: dg rg hg instanceof_CryptoKey_def p1 p2 or_js_def del: set_prop.simps get.simps)
    obtain ik where ik: "?imported = Obj ik" by simp
    have ig: "get ?imported k =
       (if k = ''secretKey'' then CryptoKey key2
        else if k = ''publicKey'' then CryptoKey key1 else get (Obj dk) k)" for k
      by (simp add: update_conv')
    have back2: "exportKey_jwk X (CryptoKey key2) = exportKey_jwk X (get keyPair ''secretKey'')"
      using stable_secret [OF p2] p2(1) by (simp add: exportKey_jwk_def)
    have "exportKeyPair X ?imported (Bool True) (Bool True) includeContext =
          exportKeyPair X keyPair (Bool True) (Bool True) includeContext"
    proof (rule exportKeyPair_eq)
      show "export_header ?imported (dflt includeContext (Bool True)) =
            export_header keyPair (dflt includeContext (Bool True))"
        by (rule export_header_eq) (simp_all add: ig dg rg hg del: set_prop.simps get.simps)
      show "export_public X ?imported (dflt (Bool True) (Bool True)) r =
            export_public X keyPair (dflt (Bool True) (Bool True)) r" for r
        by (rule export_public_eq) (simp_all add: ig back1 pk del: set_prop.simps get.simps)
      show "export_secret X ?imported (dflt (Bool True) (Bool False)) r =
            export_secret X keyPair (dflt (Bool True) (Bool False)) r" for r
        by (rule export_secret_eq) (simp_all add: ig back2 True del: set_prop.simps get.simps)
      show "truthy ?imported \<and> typeof ?imported = ''object''" by simp
      show "truthy keyPair \<and> typeof keyPair = ''object''" by (rule kp)
    qed
    with imp e show ?thesis by simp
  next
    case False
    from d have dr: "doc = r" by (simp add: export_secret_skip False)
    let ?imported = "set_prop (Obj rk) ''publicKey'' (CryptoKey key1)"
    have imp: "importKeyPair X doc = Inr ?imported"
      unfolding dr rk importKeyPair_def
      by (simp add: rg hg instanceof_CryptoKey_def p1 or_js_def del: set_prop.simps get.simps)
    have ig: "get ?imported k = (if k = ''publicKey'' then CryptoKey key1 else get (Obj rk) k)" for k
      by (simp add: update_conv')
    have nosec: "\<not> truthy (get ?imported ''secretKey'')"
      using False by (simp add: ig rg hg del: set_prop.simps get.simps)
    have "exportKeyPair X ?imported (Bool True) (Bool True) includeContext =
          exportKeyPair X keyPair (Bool True) (Bool True) includeContext"
    proof (rule exportKeyPair_eq)
      show "export_header ?imported (dflt includeContext (Bool True)) =
            export_header keyPair (dflt includeContext (Bool True))"
        by (rule export_header_eq) (simp_all add: ig rg hg del: set_prop.simps get.simps)
      show "export_public X ?imported (dflt (Bool True) (Bool True)) r =
            export_public X keyPair (dflt (Bool True) (Bool True)) r" for r
        by (rule export_public_eq) (simp_all add: ig back1 pk del: set_prop.simps get.simps)
      show "export_secret X ?imported (dflt (Bool True) (Bool False)) r =
            export_secret X keyPair (dflt (Bool True) (Bool False)) r" for r
        using nosec False by (simp add: export_secret_skip del: set_prop.simps get.simps)
      show "truthy ?imported \<and> typeof ?imported = ''object''" by simp
      show "truthy keyPair \<and> typeof keyPair = ''object''" by (rule kp)
    qed
    with imp e show ?thesis by simp
  qed
qed

theorem export_import_roundtrip_witness:
  "truthy (get sample_keyPair ''publicKey'') \<and>
   exportKeyPair sample_externals sample_keyPair (Bool True) (Bool True) (Bool True) =
     Inr sample_document \<and>
   (\<exists>imported. importKeyPair sample_externals sample_document = Inr imported \<and>
      exportKeyPair sample_externals imported (Bool True) (Bool True) (Bool True) =
        Inr sample_document)"
  using export_import_roundtrip [of sample_externals sample_keyPair "Bool True" sample_document,
      OF sample_stable sample_stable _ sample_export] sample_export
  by (simp add: sample_keyPair_def)

section \<open>JWK export of a public-only key pair\<close>

lemma sample_toJwk:
  "toJwk sample_externals sample_public_keyPair (Bool True) = Inr (Obj sample_public_jwk)"
  by code_simp

text \<open>
  Claim C10. For an engine-backed key pair without a secret key, \<open>toJwk\<close> with
  \<^verbatim>\<open>secretKey: true\<close> is \<open>toJwk\<close> with \<^verbatim>\<open>secretKey: false\<close>: the engine's JWK export of the
  public key, with \<^verbatim>\<open>alg\<close> set to \<^verbatim>\<open>PS256\<close> when it has none. It fails only if that export
  fails, and the JWK it returns has a \<^verbatim>\<open>d\<close> only if the engine's export of the public key
  has one.
\<close>

theorem toJwk_public_only:
  assumes backed: "truthy (get (get keyPair ''publicKey'') ''algorithm'')"
    and public_only: "\<not> truthy (get keyPair ''secretKey'')"
  shows "toJwk X keyPair (Bool True) = toJwk X keyPair (Bool False) \<and>
     toJwk X keyPair (Bool True) =
       (case subtle_exportKey_jwk X (get keyPair ''publicKey'') of
          Inl e \<Rightarrow> Inl (Thrown e)
        | Inr props \<Rightarrow> Inr (if \<not> truthy (get (Obj props) ''alg'')
                             then set_prop (Obj props) ''alg'' (Str ''PS256'') else Obj props)) \<and>
     (\<forall>jwk. toJwk X keyPair (Bool True) = Inr jwk \<longrightarrow>
        (\<exists>props. subtle_exportKey_jwk X (get keyPair ''publicKey'') = Inr props \<and>
                 (has_prop jwk ''d'' \<longleftrightarrow> has_prop (Obj props) ''d'')))"
proof -
  have eq: "toJwk X keyPair s =
       (case subtle_exportKey_jwk X (get keyPair ''publicKey'') of
          Inl e \<Rightarrow> Inl (Thrown e)
        | Inr props \<Rightarrow> Inr (if \<not> truthy (get (Obj props) ''alg'')
                             then set_prop (Obj props) ''alg'' (Str ''PS256'') else Obj props))" for s
    using backed public_only
    by (simp add: toJwk_def Let_def exportKey_jwk_def split: sum.splits
        del: set_prop.simps get.simps)
  show ?thesis
    unfolding eq by (auto simp: update_conv' split: sum.splits)
qed

theorem toJwk_public_only_witness:
  "truthy (get (get sample_public_keyPair ''publicKey'') ''algorithm'') \<and>
   \<not> truthy (get sample_public_keyPair ''secretKey'') \<and>
   toJwk sample_externals sample_public_keyPair (Bool True) = Inr (Obj sample_public_jwk) \<and>
   toJwk sample_externals sample_public_keyPair (Bool False) = Inr (Obj sample_public_jwk) \<and>
   \<not> has_prop (Obj sample_public_jwk) ''d''"
  using toJwk_public_only [of sample_public_keyPair sample_externals] sample_toJwk
  by (simp add: sample_public_keyPair_def sample_public_jwk_def)

section \<open>Generation\<close>

lemma createKeyPairInterface_generated:
  assumes "truthy modulusLength"
  shows "createKeyPairInterface X (Obj [(''publicKey'', CryptoKey pub), (''secretKey'', CryptoKey priv)])
           modulusLength =
     (case exportKeyPair X (Obj [(''publicKey'', CryptoKey pub), (''secretKey'', CryptoKey priv)])
             (Bool True) (Bool True) (Bool True) of
        Inl e \<Rightarrow> Inl e
      | Inr exported \<Rightarrow>
          Inr (Obj [(''publicKey'', CryptoKey pub), (''secretKey'', CryptoKey priv),
                    (''publicKeyMultibase'', get exported ''publicKeyMultibase''),
                    (''secretKeyMultibase'', get exported ''secretKeyMultibase''),
                    (''modulusLength'', modulusLength)]))"
  using assms
  by (simp add: createKeyPairInterface_def exportFn_def dflt_def instanceof_CryptoKey_def
      split: sum.splits)

lemma exportFn_document:
  "exportFn X keyPair p s c Undefined =
     exportKeyPair X keyPair (dflt p (Bool True)) (dflt s (Bool False)) (dflt c (Bool True))"
  by (simp add: exportFn_def dflt_def)

lemma generate_valid:
  assumes v: "dflt modulusLength (Num 4096) \<in> {Num 2048, Num 3072, Num 4096}"
  shows "generate X id0 controller modulusLength =
     (case subtle_generateKey X
             (Obj [(''name'', Str ''RSA-PSS''), (''hash'', Str ''SHA-256''),
                   (''modulusLength'', dflt modulusLength (Num 4096)),
                   (''publicExponent'', Uint8Array [1, 0, 1])]) True [''sign'', ''verify''] of
        Inl e \<Rightarrow> Inl (Thrown e)
      | Inr (pub, priv) \<Rightarrow>
          (case exportKeyPair X (Obj [(''publicKey'', CryptoKey pub), (''secretKey'', CryptoKey priv)])
                  (Bool True) (Bool True) (Bool True) of
             Inl e \<Rightarrow> Inl e
           | Inr exported \<Rightarrow>
               (case exportKeyPair X
                       (Obj [(''publicKey'', CryptoKey pub), (''secretKey'', CryptoKey priv),
                             (''publicKeyMultibase'', get exported ''publicKeyMultibase''),
                             (''secretKeyMultibase'', get exported ''secretKeyMultibase''),
                             (''modulusLength'', dflt modulusLength (Num 4096))])
                       (Bool True) (Bool False) (Bool True) of
                  Inl e \<Rightarrow> Inl e
                | Inr exportedKeyPair \<Rightarrow>
                    Inr (Obj [(''publicKey'', CryptoKey pub), (''secretKey'', CryptoKey priv),
                              (''publicKeyMultibase'', get exported ''publicKeyMultibase''),
                              (''secretKeyMultibase'', get exported ''secretKeyMultibase''),
                              (''modulusLength'', dflt modulusLength (Num 4096)),
                              (''id'', if \<not> truthy id0
                                       then (if truthy controller
                                             then Str (ToString controller @ ''#'' @
                                                  ToString (get exportedKeyPair ''publicKeyMultibase''))
                                             else Str (''#'' @
                                                  ToString (get exportedKeyPair ''publicKeyMultibase'')))
                                       else id0),
                              (''controller'', controller)]))))"
proof -
  from v have t: "truthy (dflt modulusLength (Num 4096))" by auto
  have d: "dflt (Bool True) (Bool True) = Bool True" "dflt Undefined (Bool False) = Bool False"
    "dflt Undefined (Bool True) = Bool True"
    by (simp_all add: dflt_def)
  from v show ?thesis
    unfolding generate_def Let_def DEFAULT_MODULUS_LENGTH_def ALGORITHM_def EXTRACTABLE_def
      createKeyPairInterface_generated [OF t] exportFn_document d
    by (auto split: sum.splits prod.splits)
qed

lemma sample_generate:
  "generate sample_externals Undefined (Str ''did:example:1234'') (Num 2048) =
   Inr (Obj [(''publicKey'', CryptoKey 1), (''secretKey'', CryptoKey 2),
             (''publicKeyMultibase'', Str ''z6Mkp''), (''secretKeyMultibase'', Str ''z3u4S''),
             (''modulusLength'', Num 2048), (''id'', Str ''did:example:1234#z6Mkp''),
             (''controller'', Str ''did:example:1234'')])"
  by code_simp

text \<open>
  Claim C2. When the modulus length, after the default 4096 for an omitted one, is not
  the number 2048, 3072 or 4096, \<open>generate\<close> throws the \<^verbatim>\<open>TypeError\<close> of the modulus length,
  whatever the engine is. For the three allowed values it throws no \<^verbatim>\<open>TypeError\<close> at all.
\<close>

theorem generate_modulusLength:
  "(dflt modulusLength (Num 4096) \<notin> {Num 2048, Num 3072, Num 4096} \<longrightarrow>
      generate X id0 controller modulusLength =
        Inl (TypeError ''\"modulusLength\" must be one of: 2048, 3072, or 4096.'')) \<and>
   (dflt modulusLength (Num 4096) \<in> {Num 2048, Num 3072, Num 4096} \<longrightarrow>
      \<not> is_TypeError (generate X id0 controller modulusLength))"
proof (intro conjI impI)
  assume "dflt modulusLength (Num 4096) \<notin> {Num 2048, Num 3072, Num 4096}"
  then show "generate X id0 controller modulusLength =
     Inl (TypeError ''\"modulusLength\" must be one of: 2048, 3072, or 4096.'')"
    by (simp add: generate_def DEFAULT_MODULUS_LENGTH_def)
next
  assume v: "dflt modulusLength (Num 4096) \<in> {Num 2048, Num 3072, Num 4096}"
  have "generate X id0 controller modulusLength \<noteq> Inl (TypeError m)" for m
    unfolding generate_valid [OF v]
    by (auto simp: exportKeyPair_no_TypeError split: sum.splits prod.splits)
  then show "\<not> is_TypeError (generate X id0 controller modulusLength)"
    by (cases "generate X id0 controller modulusLength" rule: is_TypeError.cases) auto
qed

theorem generate_modulusLength_witness:
  "generate sample_externals Undefined Undefined (Num 1024) =
     Inl (TypeError ''\"modulusLength\" must be one of: 2048, 3072, or 4096.'') \<and>
   generate sample_externals Undefined Undefined (Str ''2048'') =
     Inl (TypeError ''\"modulusLength\" must be one of: 2048, 3072, or 4096.'') \<and>
   \<not> is_TypeError (generate sample_externals Undefined Undefined (Num 2048)) \<and>
   \<not> is_TypeError (generate sample_externals Undefined Undefined Undefined)"
  using generate_modulusLength [of "Num 1024" sample_externals Undefined Undefined]
    generate_modulusLength [of "Str ''2048''" sample_externals Undefined Undefined]
    generate_modulusLength [of "Num 2048" sample_externals Undefined Undefined]
    generate_modulusLength [of Undefined sample_externals Undefined Undefined]
  by (simp add: dflt_def)

text \<open>
  Claim C3, as amended. A key pair that \<open>generate\<close> returns has the controller it was
  given, and its \<^verbatim>\<open>id\<close> is: the given id when that is truthy; else the controller, a
  \<^verbatim>\<open>#\<close>, and the text of \<^verbatim>\<open>publicKeyMultibase\<close> when the controller is truthy; else a
  \<^verbatim>\<open>#\<close> and the text of \<^verbatim>\<open>publicKeyMultibase\<close>. The id is never left undefined.
\<close>

theorem generate_id:
  assumes g: "generate X id0 controller modulusLength = Inr keyPair"
  shows "\<exists>multibase. get keyPair ''publicKeyMultibase'' = Str multibase \<and>
     get keyPair ''id'' =
       (if truthy id0 then id0
        else if truthy controller then Str (ToString controller @ ''#'' @ multibase)
        else Str (''#'' @ multibase)) \<and>
     get keyPair ''controller'' = controller"
proof -
  have v: "dflt modulusLength (Num 4096) \<in> {Num 2048, Num 3072, Num 4096}"
    using g by (auto simp: generate_def Let_def DEFAULT_MODULUS_LENGTH_def split: if_splits)
  from g [unfolded generate_valid [OF v]] obtain pub priv exported exportedKeyPair where
    e1: "exportKeyPair X (Obj [(''publicKey'', CryptoKey pub), (''secretKey'', CryptoKey priv)])
           (Bool True) (Bool True) (Bool True) = Inr exported" and
    e2: "exportKeyPair X
           (Obj [(''publicKey'', CryptoKey pub), (''secretKey'', CryptoKey priv),
                 (''publicKeyMultibase'', get exported ''publicKeyMultibase''),
                 (''secretKeyMultibase'', get exported ''secretKeyMultibase''),
                 (''modulusLength'', dflt modulusLength (Num 4096))])
           (Bool True) (Bool False) (Bool True) = Inr exportedKeyPair" and
    k: "keyPair =
          Obj [(''publicKey'', CryptoKey pub), (''secretKey'', CryptoKey priv),
               (''publicKeyMultibase'', get exported ''publicKeyMultibase''),
               (''secretKeyMultibase'', get exported ''secretKeyMultibase''),
               (''modulusLength'', dflt modulusLength (Num 4096)),
               (''id'', if \<not> truthy id0
                        then (if truthy controller
                              then Str (ToString controller @ ''#'' @
                                   ToString (get exportedKeyPair ''publicKeyMultibase''))
                              else Str (''#'' @
                                   ToString (get exportedKeyPair ''publicKeyMultibase'')))
                        else id0),
               (''controller'', controller)]"
    by (auto split: sum.splits prod.splits)
  from exportKeyPair_multibase [OF e1] obtain props key bytes where
    1: "subtle_exportKey_jwk X (CryptoKey pub) = Inr props"
       "subtle_importKey X ''jwk'' (Obj props) RSA_PSS_SHA256 True [''verify''] = Inr key"
       "subtle_exportKey_der X ''spki'' (CryptoKey key) = Inr bytes"
       "get exported ''publicKeyMultibase'' = Str (base58btc_encode X bytes)"
    by (auto simp: dflt_def)
  from exportKeyPair_multibase [OF e2] 1 have
    2: "get exportedKeyPair ''publicKeyMultibase'' = Str (base58btc_encode X bytes)"
    by (auto simp: dflt_def)
  show ?thesis
    unfolding k using 1(4) 2 by simp
qed

theorem generate_id_witness:
  "generate sample_externals Undefined (Str ''did:example:1234'') (Num 2048) =
   Inr (Obj [(''publicKey'', CryptoKey 1), (''secretKey'', CryptoKey 2),
             (''publicKeyMultibase'', Str ''z6Mkp''), (''secretKeyMultibase'', Str ''z3u4S''),
             (''modulusLength'', Num 2048), (''id'', Str ''did:example:1234#z6Mkp''),
             (''controller'', Str ''did:example:1234'')]) \<and>
   (\<exists>multibase.
      get (Obj [(''publicKey'', CryptoKey 1), (''secretKey'', CryptoKey 2),
             (''publicKeyMultibase'', Str ''z6Mkp''), (''secretKeyMultibase'', Str ''z3u4S''),
             (''modulusLength'', Num 2048), (''id'', Str ''did:example:1234#z6Mkp''),
             (''controller'', Str ''did:example:1234'')]) ''id'' =
      Str (''did:example:1234'' @ ''#'' @ multibase))"
  using generate_id [OF sample_generate] sample_generate
  by simp

text \<open>
  The claim as stated, that the id is left undefined when neither id nor controller is
  given, fails: the id is then \<^verbatim>\<open>#\<close> followed by the multibase text.
\<close>

theorem generate_id_undefined_counterexample:
  "generate sample_externals Undefined Undefined Undefined =
   Inr (Obj [(''publicKey'', CryptoKey 1), (''secretKey'', CryptoKey 2),
             (''publicKeyMultibase'', Str ''z6Mkp''), (''secretKeyMultibase'', Str ''z3u4S''),
             (''modulusLength'', Num 4096), (''id'', Str ''#z6Mkp''),
             (''controller'', Undefined)])"
  by code_simp

section \<open>Import of a JWK-carrying document\<close>

lemma importKeyPair_keeps:
  assumes "importKeyPair X (Obj kvs) = Inr r"
  shows "\<exists>rs. r = Obj rs \<and> (\<forall>k. k \<noteq> ''publicKey'' \<and> k \<noteq> ''secretKey'' \<longrightarrow> get r k = get (Obj kvs) k)"
  using assms
  by (auto simp: importKeyPair_def Let_def update_conv' split: if_splits sum.splits)

lemma createKeyPairInterface_keeps:
  assumes "createKeyPairInterface X (Obj kvs) modulusLength = Inr r"
    and "k \<noteq> ''publicKey''" "k \<noteq> ''secretKey''" "k \<noteq> ''publicKeyMultibase''"
        "k \<noteq> ''secretKeyMultibase''" "k \<noteq> ''modulusLength''"
  shows "get r k = get (Obj kvs) k"
proof -
  from assms(1) obtain keyPair where
    kp: "(if \<not> instanceof_CryptoKey (get (Obj kvs) ''publicKey'') \<and>
             \<not> truthy (get (get (Obj kvs) ''publicKey'') ''algorithm'')
          then importKeyPair X (Obj kvs) else Inr (Obj kvs)) = Inr keyPair"
    by (auto simp: createKeyPairInterface_def split: sum.splits simp del: get.simps)
  then obtain ks where ks: "keyPair = Obj ks" and same: "get keyPair k = get (Obj kvs) k"
    using importKeyPair_keeps [of X kvs keyPair] assms(2,3)
    by (auto split: if_splits simp del: get.simps)
  from assms(1) kp obtain a b c where
    "r = set_prop (set_prop (set_prop (spread keyPair) ''publicKeyMultibase'' a)
           ''secretKeyMultibase'' b) ''modulusLength'' c"
    by (auto simp: createKeyPairInterface_def split: sum.splits simp del: get.simps set_prop.simps)
  then show ?thesis
    using assms(4-6) same unfolding ks by (simp add: update_conv')
qed

lemma fromJwk_multikey_props:
  assumes "fromJwk_multikey X jwk s i c = Inr mk"
  shows "\<exists>ms. mk = Obj ms \<and> get mk ''type'' = Str ''Multikey'' \<and>
     get mk ''@context'' = Str MULTIKEY_CONTEXT_V1_URL \<and>
     get mk ''id'' = (if typeof i = ''string'' then i else Undefined) \<and>
     get mk ''controller'' = (if typeof c = ''string'' then c else Undefined)"
  using assms
  by (auto simp: fromJwk_multikey_def Let_def update_conv' split: if_splits sum.splits)

lemma from_literal_identity:
  assumes f: "from_literal X (Obj ms) = Inr keyPair"
    and t: "get (Obj ms) ''type'' = Str ''Multikey''"
    and c: "get (Obj ms) ''@context'' = Str MULTIKEY_CONTEXT_V1_URL"
  shows "get keyPair ''controller'' = get (Obj ms) ''controller'' \<and>
     get keyPair ''id'' =
       (if truthy (get (Obj ms) ''controller'') \<and> \<not> truthy (get (Obj ms) ''id'')
        then Str (ToString (get (Obj ms) ''controller'') @ ''#'' @
                  ToString (get (Obj ms) ''publicKeyMultibase''))
        else get (Obj ms) ''id'')"
proof -
  let ?d = "if truthy (get (Obj ms) ''controller'') \<and> \<not> truthy (get (Obj ms) ''id'')
            then set_prop (Obj ms) ''id''
                   (Str (ToString (get (Obj ms) ''controller'') @ ''#'' @
                         ToString (get (Obj ms) ''publicKeyMultibase'')))
            else Obj ms"
  have tt: "truthy (get (Obj ms) ''type'')" "truthy (get (Obj ms) ''@context'')"
    unfolding t c by (simp_all add: MULTIKEY_CONTEXT_V1_URL_def)
  from f have i: "createKeyPairInterface X ?d Undefined = Inr keyPair"
    unfolding from_literal_def Let_def using tt
    by (auto split: sum.splits if_splits simp del: get.simps set_prop.simps)
  obtain ds where ds: "?d = Obj ds"
    by (cases "truthy (get (Obj ms) ''controller'') \<and> \<not> truthy (get (Obj ms) ''id'')") auto
  have "get keyPair ''controller'' = get ?d ''controller''" "get keyPair ''id'' = get ?d ''id''"
    using i unfolding ds by (simp_all add: createKeyPairInterface_keeps del: get.simps)
  then show ?thesis
    by (simp add: update_conv')
qed

lemma fromJwk_identity:
  assumes "fromJwk X jwk s i c = Inr keyPair"
  shows "get keyPair ''controller'' = (if typeof c = ''string'' then c else Undefined) \<and>
     (typeof i = ''string'' \<and> truthy i \<longrightarrow> get keyPair ''id'' = i) \<and>
     (typeof c \<noteq> ''string'' \<and> typeof i \<noteq> ''string'' \<longrightarrow> get keyPair ''id'' = Undefined)"
proof -
  from assms obtain mk where
    mk: "fromJwk_multikey X jwk s i c = Inr mk" and f: "from_key X mk = Inr keyPair"
    by (auto simp: fromJwk.simps split: sum.splits)
  from fromJwk_multikey_props [OF mk] obtain ms where
    ms: "mk = Obj ms" and
    p: "get (Obj ms) ''type'' = Str ''Multikey''"
       "get (Obj ms) ''@context'' = Str MULTIKEY_CONTEXT_V1_URL"
       "get (Obj ms) ''id'' = (if typeof i = ''string'' then i else Undefined)"
       "get (Obj ms) ''controller'' = (if typeof c = ''string'' then c else Undefined)"
    by auto
  from f have "from_literal X (Obj ms) = Inr keyPair"
    unfolding ms from_key.simps [of X "Obj ms"] Let_def using p(1)
    by (simp del: get.simps)
  from from_literal_identity [OF this p(1,2)] show ?thesis
    unfolding p(3,4) by auto
qed

lemma sample_from_recognized:
  "from_key sample_externals (sample_jwk_document ''JsonWebKey'') =
   Inr (sample_imported [(''id'', Str ''did:example:1234#key-1''),
                         (''controller'', Str ''did:example:1234'')])"
  by code_simp

lemma sample_from_other:
  "from_key sample_externals (sample_jwk_document ''Ed25519VerificationKey2020'') =
   Inr (sample_imported [])"
  by code_simp

text \<open>
  Claim C9. When the type of the input is not \<^verbatim>\<open>Multikey\<close> and \<^verbatim>\<open>publicKeyJwk\<close> is present,
  \<open>from\<close> is \<open>fromJwk\<close> on that JWK, with the input's \<^verbatim>\<open>id\<close> and \<^verbatim>\<open>controller\<close> when the type
  is \<^verbatim>\<open>JsonWebKey\<close> or \<^verbatim>\<open>JsonWebKey2020\<close> and with neither for any other type. In the key
  pair that comes back, a string controller and a non-empty string id of a recognized type
  are the input's; for any other type \<^verbatim>\<open>id\<close> and \<^verbatim>\<open>controller\<close> are undefined.
\<close>

theorem from_jwk_document:
  assumes nm: "get key ''type'' \<noteq> Str ''Multikey''"
    and jw: "truthy (get key ''publicKeyJwk'')"
  shows "from_key X key =
       fromJwk X (get key ''publicKeyJwk'')
         (Bool (truthy (get key ''secretKeyJwk'') \<or> truthy (get key ''privateKeyJwk'')))
         (if get key ''type'' = Str ''JsonWebKey'' \<or> get key ''type'' = Str ''JsonWebKey2020''
          then get key ''id'' else Undefined)
         (if get key ''type'' = Str ''JsonWebKey'' \<or> get key ''type'' = Str ''JsonWebKey2020''
          then get key ''controller'' else Undefined) \<and>
     (\<forall>keyPair. from_key X key = Inr keyPair \<longrightarrow>
        (if get key ''type'' = Str ''JsonWebKey'' \<or> get key ''type'' = Str ''JsonWebKey2020''
         then (typeof (get key ''controller'') = ''string'' \<longrightarrow>
                 get keyPair ''controller'' = get key ''controller'') \<and>
              (typeof (get key ''id'') = ''string'' \<and> truthy (get key ''id'') \<longrightarrow>
                 get keyPair ''id'' = get key ''id'')
         else get keyPair ''id'' = Undefined \<and> get keyPair ''controller'' = Undefined))"
proof -
  have sp: "spread key = key"
    using truthy_get_spread [OF jw] by simp
  have d: "from_key X key =
       fromJwk X (get key ''publicKeyJwk'')
         (Bool (truthy (get key ''secretKeyJwk'') \<or> truthy (get key ''privateKeyJwk'')))
         (if get key ''type'' = Str ''JsonWebKey'' \<or> get key ''type'' = Str ''JsonWebKey2020''
          then get key ''id'' else Undefined)
         (if get key ''type'' = Str ''JsonWebKey'' \<or> get key ''type'' = Str ''JsonWebKey2020''
          then get key ''controller'' else Undefined)"
    unfolding from_key.simps [of X key] Let_def sp using nm jw by simp
  show ?thesis
  proof (intro conjI allI impI)
    show "from_key X key =
       fromJwk X (get key ''publicKeyJwk'')
         (Bool (truthy (get key ''secretKeyJwk'') \<or> truthy (get key ''privateKeyJwk'')))
         (if get key ''type'' = Str ''JsonWebKey'' \<or> get key ''type'' = Str ''JsonWebKey2020''
          then get key ''id'' else Undefined)
         (if get key ''type'' = Str ''JsonWebKey'' \<or> get key ''type'' = Str ''JsonWebKey2020''
          then get key ''controller'' else Undefined)"
      by (rule d)
  next
    fix keyPair
    assume "from_key X key = Inr keyPair"
    from fromJwk_identity [OF this [unfolded d]]
    show "if get key ''type'' = Str ''JsonWebKey'' \<or> get key ''type'' = Str ''JsonWebKey2020''
         then (typeof (get key ''controller'') = ''string'' \<longrightarrow>
                 get keyPair ''controller'' = get key ''controller'') \<and>
              (typeof (get key ''id'') = ''string'' \<and> truthy (get key ''id'') \<longrightarrow>
                 get keyPair ''id'' = get key ''id'')
         else get keyPair ''id'' = Undefined \<and> get keyPair ''controller'' = Undefined"
      by (auto split: if_splits)
  qed
qed

theorem from_jwk_document_witness:
  "from_key sample_externals (sample_jwk_document ''JsonWebKey'') =
     Inr (sample_imported [(''id'', Str ''did:example:1234#key-1''),
                           (''controller'', Str ''did:example:1234'')]) \<and>
   from_key sample_externals (sample_jwk_document ''JsonWebKey'') =
     fromJwk sample_externals (Obj sample_public_jwk) (Bool False)
       (Str ''did:example:1234#key-1'') (Str ''did:example:1234'') \<and>
   from_key sample_externals (sample_jwk_document ''Ed25519VerificationKey2020'') =
     Inr (sample_imported []) \<and>
   from_key sample_externals (sample_jwk_document ''Ed25519VerificationKey2020'') =
     fromJwk sample_externals (Obj sample_public_jwk) (Bool False) Undefined Undefined \<and>
   get (sample_imported []) ''id'' = Undefined \<and>
   get (sample_imported []) ''controller'' = Undefined"
  using from_jwk_document [of "sample_jwk_document ''JsonWebKey''" sample_externals]
    from_jwk_document [of "sample_jwk_document ''Ed25519VerificationKey2020''" sample_externals]
    sample_from_recognized sample_from_other
  by (simp add: sample_jwk_document_def sample_imported_def)

section \<open>The round trip through the facade\<close>

lemma importKeyPair_jwk:
  assumes i: "importKeyPair X (Obj kvs) = Inr r"
    and nokey: "get (Obj kvs) ''publicKey'' = Undefined"
    and jwk: "truthy (get (Obj kvs) ''publicKeyJwk'')"
    and noagree: "\<not> truthy (get (Obj kvs) ''keyAgreement'')"
  shows "\<exists>key1. subtle_importKey X ''jwk'' (get (Obj kvs) ''publicKeyJwk'') RSA_PSS_SHA256 True
                  [''verify''] = Inr key1 \<and>
     get r ''publicKey'' = CryptoKey key1 \<and>
     (if truthy (get (Obj kvs) ''secretKeyJwk'') \<or> truthy (get (Obj kvs) ''privateKeyJwk'')
      then \<exists>key2. subtle_importKey X ''jwk''
                     (or_js (get (Obj kvs) ''secretKeyJwk'') (get (Obj kvs) ''privateKeyJwk''))
                     RSA_PSS_SHA256 True [''sign''] = Inr key2 \<and>
                   get r ''secretKey'' = CryptoKey key2
      else get r ''secretKey'' = get (Obj kvs) ''secretKey'')"
  using i unfolding importKeyPair_def Let_def
  using nokey jwk noagree
  by (auto simp: instanceof_CryptoKey_def update_conv' split: sum.splits if_splits)

lemma createKeyPairInterface_imports:
  assumes c: "createKeyPairInterface X (Obj kvs) modulusLength = Inr interface"
    and nokey: "get (Obj kvs) ''publicKey'' = Undefined"
  shows "\<exists>keyPair. importKeyPair X (Obj kvs) = Inr keyPair \<and>
     (\<forall>k. k \<noteq> ''publicKeyMultibase'' \<and> k \<noteq> ''secretKeyMultibase'' \<and> k \<noteq> ''modulusLength'' \<longrightarrow>
          get interface k = get keyPair k) \<and>
     truthy interface \<and> typeof interface = ''object''"
proof -
  from c nokey obtain keyPair where kp: "importKeyPair X (Obj kvs) = Inr keyPair"
    by (auto simp: createKeyPairInterface_def instanceof_CryptoKey_def split: sum.splits
        simp del: get.simps(1))
  from importKeyPair_keeps [OF kp] obtain ks where ks: "keyPair = Obj ks" by blast
  from c kp nokey obtain a b m where
    "interface = set_prop (set_prop (set_prop (spread keyPair) ''publicKeyMultibase'' a)
           ''secretKeyMultibase'' b) ''modulusLength'' m"
    by (auto simp: createKeyPairInterface_def instanceof_CryptoKey_def split: sum.splits
        simp del: get.simps(1) set_prop.simps(1))
  then have "\<forall>k. k \<noteq> ''publicKeyMultibase'' \<and> k \<noteq> ''secretKeyMultibase'' \<and> k \<noteq> ''modulusLength'' \<longrightarrow>
          get interface k = get keyPair k" "truthy interface \<and> typeof interface = ''object''"
    unfolding ks by (simp_all add: update_conv')
  with kp show ?thesis by blast
qed

lemma exportFn_not_raw:
  "exportFn X keyPair p s c Undefined = exportKeyPair X keyPair p s c"
  by (simp add: exportFn_def exportKeyPair_def dflt_def Let_def)

text \<open>
  The same round trip through the facade: \<open>from\<close> on the exported document, then the
  \<^verbatim>\<open>export\<close> of the interface. \<open>from\<close> derives an id for a document that has a controller and
  no id, so the documents agree when the key pair has an id or has no controller.
\<close>

lemma from_export_roundtrip:
  assumes stable_public: "\<And>key props h.
        subtle_exportKey_jwk X key = Inr props \<Longrightarrow>
        subtle_importKey X ''jwk'' (Obj props) RSA_PSS_SHA256 True [''verify''] = Inr h \<Longrightarrow>
        subtle_exportKey_jwk X (CryptoKey h) = Inr props"
    and stable_secret: "\<And>key props h.
        subtle_exportKey_jwk X key = Inr props \<Longrightarrow>
        subtle_importKey X ''jwk'' (Obj props) RSA_PSS_SHA256 True [''sign''] = Inr h \<Longrightarrow>
        subtle_exportKey_jwk X (CryptoKey h) = Inr props"
    and pk: "truthy (get keyPair ''publicKey'')"
    and idc: "truthy (get keyPair ''id'') \<or> \<not> truthy (get keyPair ''controller'')"
    and e: "exportKeyPair X keyPair (Bool True) (Bool True) includeContext = Inr doc"
    and f: "from_key X doc = Inr interface"
  shows "exportFn X interface (Bool True) (Bool True) includeContext Undefined = Inr doc"
proof -
  have kp: "truthy keyPair \<and> typeof keyPair = ''object''"
    using e by (auto simp: exportKeyPair_def Let_def split: if_splits)
  obtain h where h: "export_header keyPair (dflt includeContext (Bool True)) = Obj h"
    using export_header_Obj by blast
  have hg: "get (Obj h) k =
     (if k = ''controller'' \<and> truthy (get keyPair ''controller'') then get keyPair ''controller''
      else if k = ''id'' \<and> truthy (get keyPair ''id'') then get keyPair ''id''
      else if k = ''@context'' \<and> truthy (dflt includeContext (Bool True))
      then Str ''https://w3id.org/security/multikey/v1''
      else if k = ''type'' then Str ''Multikey'' else Undefined)" for k
    using get_export_header [of keyPair "dflt includeContext (Bool True)" k] unfolding h .
  have T: "dflt (Bool True) (Bool True) = Bool True" "dflt (Bool True) (Bool False) = Bool True"
    by (simp_all add: dflt_def)
  from e obtain r where
    r: "export_public X keyPair (Bool True) (Obj h) = Inr r" and
    d: "export_secret X keyPair (Bool True) r = Inr doc"
    by (auto simp: exportKeyPair_def Let_def h T split: if_splits sum.splits)
  from export_public_Inr [OF r _ pk] obtain props1 key1 bytes1 where
    p1: "subtle_exportKey_jwk X (get keyPair ''publicKey'') = Inr props1"
        "subtle_importKey X ''jwk'' (Obj props1) RSA_PSS_SHA256 True [''verify''] = Inr key1" and
    r': "r = set_prop (set_prop (Obj h) ''publicKeyMultibase'' (Str (base58btc_encode X bytes1)))
           ''publicKeyJwk'' (Obj props1)"
    by auto
  obtain rk where rk: "r = Obj rk" unfolding r' by simp
  have rg: "get (Obj rk) k =
     (if k = ''publicKeyJwk'' then Obj props1
      else if k = ''publicKeyMultibase'' then Str (base58btc_encode X bytes1)
      else get (Obj h) k)" for k
    unfolding rk [symmetric] r' by (simp add: update_conv')
  obtain dk where dk: "doc = Obj dk" and
    dg: "\<And>k. k \<noteq> ''secretKeyJwk'' \<Longrightarrow> k \<noteq> ''secretKeyMultibase'' \<Longrightarrow> get (Obj dk) k = get (Obj rk) k" and
    ds: "if truthy (get keyPair ''secretKey'')
         then \<exists>props2 key2. subtle_exportKey_jwk X (get keyPair ''secretKey'') = Inr props2 \<and>
                subtle_importKey X ''jwk'' (Obj props2) RSA_PSS_SHA256 True [''sign''] = Inr key2 \<and>
                get (Obj dk) ''secretKeyJwk'' = Obj props2
         else get (Obj dk) ''secretKeyJwk'' = Undefined"
  proof (cases "truthy (get keyPair ''secretKey'')")
    case True
    from export_secret_Inr [OF d [unfolded rk] _ True] obtain props2 key2 bytes2 where
      p2: "subtle_exportKey_jwk X (get keyPair ''secretKey'') = Inr props2"
          "subtle_importKey X ''jwk'' (Obj props2) RSA_PSS_SHA256 True [''sign''] = Inr key2" and
      d': "doc = set_prop (set_prop (Obj rk) ''secretKeyMultibase'' (Str (base58btc_encode X bytes2)))
             ''secretKeyJwk'' (Obj props2)"
      by auto
    obtain dk where dk: "doc = Obj dk" unfolding d' by simp
    have "get (Obj dk) k =
       (if k = ''secretKeyJwk'' then Obj props2
        else if k = ''secretKeyMultibase'' then Str (base58btc_encode X bytes2)
        else get (Obj rk) k)" for k
      unfolding dk [symmetric] d' by (simp add: update_conv')
    with that [of dk] dk True p2 show thesis by auto
  next
    case False
    from d have "doc = Obj rk" by (simp add: export_secret_skip False rk)
    with that [of rk] False show thesis
      by (simp add: rg hg del: get.simps(1))
  qed
  have ty: "get (Obj dk) ''type'' = Str ''Multikey''"
    by (simp add: dg rg hg del: get.simps(1))
  let ?mk = "if \<not> truthy (get (Obj dk) ''@context'')
             then set_prop (Obj dk) ''@context'' (Str MULTIKEY_CONTEXT_V1_URL) else Obj dk"
  obtain mk where mk: "?mk = Obj mk"
    by (cases "truthy (get (Obj dk) ''@context'')") auto
  have mg: "k \<noteq> ''@context'' \<Longrightarrow> get (Obj mk) k = get (Obj dk) k" for k
    unfolding mk [symmetric] by (simp add: update_conv')
  have noderive: "\<not> (truthy (get (Obj mk) ''controller'') \<and> \<not> truthy (get (Obj mk) ''id''))"
    using idc by (auto simp: mg dg rg hg simp del: get.simps(1))
  have tt: "truthy (get (Obj dk) ''type'')"
    unfolding ty by simp
  from f have fl: "from_literal X (Obj dk) = Inr interface"
    unfolding dk from_key.simps [of X "Obj dk"] Let_def using ty by (simp del: get.simps(1))
  have i: "createKeyPairInterface X (Obj mk) Undefined = Inr interface"
  proof (cases "truthy (get (Obj dk) ''@context'')")
    case True
    then have m: "Obj mk = Obj dk" using mk by simp
    from fl noderive [unfolded m] True tt show ?thesis
      unfolding m from_literal_def Let_def
      by (auto split: sum.splits simp del: get.simps(1) set_prop.simps(1))
  next
    case False
    then have m: "Obj mk = set_prop (Obj dk) ''@context'' (Str MULTIKEY_CONTEXT_V1_URL)"
      using mk by simp
    from fl noderive [unfolded m] False tt show ?thesis
      unfolding m from_literal_def Let_def
      by (auto split: sum.splits simp del: get.simps(1) set_prop.simps(1))
  qed
  from createKeyPairInterface_imports [OF i] obtain imported where
    imp: "importKeyPair X (Obj mk) = Inr imported" and
    ig: "\<And>k. k \<noteq> ''publicKeyMultibase'' \<Longrightarrow> k \<noteq> ''secretKeyMultibase'' \<Longrightarrow> k \<noteq> ''modulusLength'' \<Longrightarrow>
          get interface k = get imported k" and
    io: "truthy interface \<and> typeof interface = ''object''"
    by (auto simp: mg dg rg hg simp del: get.simps(1))
  from importKeyPair_keeps [OF imp] have
    keep: "\<And>k. k \<noteq> ''publicKey'' \<Longrightarrow> k \<noteq> ''secretKey'' \<Longrightarrow> get imported k = get (Obj mk) k"
    by blast
  from importKeyPair_jwk [OF imp] ds obtain key1' where
    k1: "subtle_importKey X ''jwk'' (Obj props1) RSA_PSS_SHA256 True [''verify''] = Inr key1'"
        "get imported ''publicKey'' = CryptoKey key1'" and
    k2: "if truthy (get keyPair ''secretKey'')
         then \<exists>props2 key2. subtle_exportKey_jwk X (get keyPair ''secretKey'') = Inr props2 \<and>
                subtle_importKey X ''jwk'' (Obj props2) RSA_PSS_SHA256 True [''sign''] = Inr key2 \<and>
                get imported ''secretKey'' = CryptoKey key2
         else get imported ''secretKey'' = Undefined"
    by (auto simp: mg dg rg hg or_js_def split: if_splits simp del: get.simps(1))
  have back1: "exportKey_jwk X (get interface ''publicKey'') = exportKey_jwk X (get keyPair ''publicKey'')"
    using stable_public [OF p1(1) k1(1)] p1(1) by (simp add: ig k1(2) exportKey_jwk_def)
  have "exportKeyPair X interface (Bool True) (Bool True) includeContext =
        exportKeyPair X keyPair (Bool True) (Bool True) includeContext"
  proof (rule exportKeyPair_eq)
    show "export_header interface (dflt includeContext (Bool True)) =
          export_header keyPair (dflt includeContext (Bool True))"
      by (rule export_header_eq) (simp_all add: ig keep mg dg rg hg del: get.simps(1))
    show "export_public X interface (dflt (Bool True) (Bool True)) r =
          export_public X keyPair (dflt (Bool True) (Bool True)) r" for r
      by (rule export_public_eq [OF back1]) (simp add: ig k1(2) pk)
    show "export_secret X interface (dflt (Bool True) (Bool False)) r =
          export_secret X keyPair (dflt (Bool True) (Bool False)) r" for r
    proof (cases "truthy (get keyPair ''secretKey'')")
      case True
      with k2 obtain props2 key2 where
        s: "subtle_exportKey_jwk X (get keyPair ''secretKey'') = Inr props2"
           "subtle_importKey X ''jwk'' (Obj props2) RSA_PSS_SHA256 True [''sign''] = Inr key2"
           "get imported ''secretKey'' = CryptoKey key2"
        by auto
      show ?thesis
        by (rule export_secret_eq)
           (use stable_secret [OF s(1,2)] s(1) True in \<open>simp_all add: ig s(3) exportKey_jwk_def\<close>)
    next
      case False
      with k2 show ?thesis
        by (simp add: export_secret_skip ig)
    qed
    show "truthy interface \<and> typeof interface = ''object''" by (rule io)
    show "truthy keyPair \<and> typeof keyPair = ''object''" by (rule kp)
  qed
  with e show ?thesis
    by (simp add: exportFn_not_raw)
qed

text \<open>
  A key pair with a controller and no id: its export has no \<^verbatim>\<open>id\<close>, \<open>from\<close> derives one,
  and the export of the interface carries it.
\<close>

lemma from_derives_id_example:
  "(case exportKeyPair sample_externals sample_controller_keyPair (Bool True) (Bool True)
           (Bool True) of
      Inl e \<Rightarrow> False
    | Inr doc \<Rightarrow>
        \<not> has_prop doc ''id'' \<and>
        (case from_key sample_externals doc of
           Inl e \<Rightarrow> False
         | Inr interface \<Rightarrow>
             (case exportFn sample_externals interface (Bool True) (Bool True) (Bool True)
                     Undefined of
                Inl e \<Rightarrow> False
              | Inr again \<Rightarrow> get again ''id'' = Str ''did:example:1234#z6Mkp'')))"
  by code_simp

end
